theory Spec2Isabelle
  imports
    Main
    "HOL-Library.Word"
    "HOL-Library.Char_ord"
    "HOL-Library.List_Lexorder"
    "HOL-Library.Product_Lexorder"
    "HOL-Library.AList"
begin

unbundle bit_operations_syntax

chapter \<open>The governance kernel of the sovereign monorepo\<close>

text \<open>
  A shallow embedding of \<^verbatim>\<open>src/infra/core/daemon\<close>: the invariant registry
  (\<^verbatim>\<open>invariants.py\<close>), the evidence ledger and the H.U.G protocol
  (\<^verbatim>\<open>governance_daemon.py\<close>, \<^verbatim>\<open>hug_protocol.py\<close>) and the halt matrix
  (\<^verbatim>\<open>halt_matrix.py\<close>). Python strings are \<^typ>\<open>string\<close>s whose characters are
  code points below 256; a raised exception is a value \<open>Inl\<close> of a sum; the wall clock
  (\<^verbatim>\<open>datetime.now\<close>) is an argument \<open>now\<close> of every function that reads it.
\<close>

section \<open>Library functions the code calls\<close>

subsection \<open>Python exceptions\<close>

text \<open>An exception is its class name (\<^verbatim>\<open>type(e).__name__\<close>) and its text (\<^verbatim>\<open>str(e)\<close>).\<close>

datatype pyexc = PyExc (exception_type: string) (exception_text: string)

definition then_do :: "'e + 'a \<Rightarrow> ('a \<Rightarrow> 'e + 'b) \<Rightarrow> 'e + 'b" where
  "then_do r f = (case r of Inl e \<Rightarrow> Inl e | Inr x \<Rightarrow> f x)"

text \<open>A \<^verbatim>\<open>for\<close> loop whose body may raise: the first exception leaves the loop.\<close>

fun for_each :: "('a \<Rightarrow> 's \<Rightarrow> 'e + 's) \<Rightarrow> 'a list \<Rightarrow> 's \<Rightarrow> 'e + 's" where
  "for_each body [] s = Inr s"
| "for_each body (x # xs) s =
     (case body x s of Inl e \<Rightarrow> Inl e | Inr s' \<Rightarrow> for_each body xs s')"

subsection \<open>\<^verbatim>\<open>hashlib.sha256\<close>\<close>

type_synonym u32 = "32 word"

definition rotr :: "nat \<Rightarrow> u32 \<Rightarrow> u32" where
  "rotr n x = drop_bit n x OR push_bit (32 - n) x"

definition Ch :: "u32 \<Rightarrow> u32 \<Rightarrow> u32 \<Rightarrow> u32" where
  "Ch x y z = (x AND y) XOR (NOT x AND z)"

definition Maj :: "u32 \<Rightarrow> u32 \<Rightarrow> u32 \<Rightarrow> u32" where
  "Maj x y z = (x AND y) XOR (x AND z) XOR (y AND z)"

definition Sigma0 :: "u32 \<Rightarrow> u32" where
  "Sigma0 x = rotr 2 x XOR rotr 13 x XOR rotr 22 x"

definition Sigma1 :: "u32 \<Rightarrow> u32" where
  "Sigma1 x = rotr 6 x XOR rotr 11 x XOR rotr 25 x"

definition sigma0 :: "u32 \<Rightarrow> u32" where
  "sigma0 x = rotr 7 x XOR rotr 18 x XOR drop_bit 3 x"

definition sigma1 :: "u32 \<Rightarrow> u32" where
  "sigma1 x = rotr 17 x XOR rotr 19 x XOR drop_bit 10 x"

definition sha256_K :: "u32 list" where
  "sha256_K =
    [0x428A2F98, 0x71374491, 0xB5C0FBCF, 0xE9B5DBA5, 0x3956C25B, 0x59F111F1, 0x923F82A4, 0xAB1C5ED5,
     0xD807AA98, 0x12835B01, 0x243185BE, 0x550C7DC3, 0x72BE5D74, 0x80DEB1FE, 0x9BDC06A7, 0xC19BF174,
     0xE49B69C1, 0xEFBE4786, 0x0FC19DC6, 0x240CA1CC, 0x2DE92C6F, 0x4A7484AA, 0x5CB0A9DC, 0x76F988DA,
     0x983E5152, 0xA831C66D, 0xB00327C8, 0xBF597FC7, 0xC6E00BF3, 0xD5A79147, 0x06CA6351, 0x14292967,
     0x27B70A85, 0x2E1B2138, 0x4D2C6DFC, 0x53380D13, 0x650A7354, 0x766A0ABB, 0x81C2C92E, 0x92722C85,
     0xA2BFE8A1, 0xA81A664B, 0xC24B8B70, 0xC76C51A3, 0xD192E819, 0xD6990624, 0xF40E3585, 0x106AA070,
     0x19A4C116, 0x1E376C08, 0x2748774C, 0x34B0BCB5, 0x391C0CB3, 0x4ED8AA4A, 0x5B9CCA4F, 0x682E6FF3,
     0x748F82EE, 0x78A5636F, 0x84C87814, 0x8CC70208, 0x90BEFFFA, 0xA4506CEB, 0xBEF9A3F7, 0xC67178F2]"

definition sha256_H0 :: "u32 list" where
  "sha256_H0 =
    [0x6A09E667, 0xBB67AE85, 0x3C6EF372, 0xA54FF53A, 0x510E527F, 0x9B05688C, 0x1F83D9AB, 0x5BE0CD19]"

text \<open>The \<open>k\<close> bytes of \<open>n\<close>, most significant first.\<close>

definition be_bytes :: "nat \<Rightarrow> nat \<Rightarrow> nat list" where
  "be_bytes k n = map (\<lambda>i. (n div 256 ^ (k - 1 - i)) mod 256) [0..<k]"

text \<open>Padding: the byte 0x80, zero bytes up to 56 modulo 64, the bit length on 8 bytes.\<close>

definition sha256_pad :: "nat list \<Rightarrow> nat list" where
  "sha256_pad bs =
     bs @ [128] @ replicate ((119 - length bs mod 64) mod 64) 0 @ be_bytes 8 (8 * length bs)"

fun be_words :: "nat list \<Rightarrow> u32 list" where
  "be_words (a # b # c # d # bs) =
     of_nat (((a * 256 + b) * 256 + c) * 256 + d) # be_words bs"
| "be_words _ = []"

fun schedule :: "nat \<Rightarrow> u32 list \<Rightarrow> u32 list" where
  "schedule 0 w = w"
| "schedule (Suc n) w =
     (let t = length w in
      schedule n (w @ [sigma1 (w ! (t - 2)) + w ! (t - 7) + sigma0 (w ! (t - 15)) + w ! (t - 16)]))"

fun sha256_round :: "u32 list \<Rightarrow> u32 \<times> u32 \<Rightarrow> u32 list" where
  "sha256_round [a, b, c, d, e, f, g, h] (k, w) =
     (let t1 = h + Sigma1 e + Ch e f g + k + w;
          t2 = Sigma0 a + Maj a b c
      in [t1 + t2, a, b, c, d + t1, e, f, g])"
| "sha256_round s _ = s"

definition sha256_compress :: "u32 list \<Rightarrow> u32 list \<Rightarrow> u32 list" where
  "sha256_compress hs block =
     map2 (+) hs (foldl sha256_round hs (zip sha256_K (schedule 48 block)))"

fun chunks :: "nat \<Rightarrow> 'a list \<Rightarrow> 'a list list" where
  "chunks n [] = []"
| "chunks n xs = (if n = 0 then [xs] else take n xs # chunks n (drop n xs))"

definition hex_digit :: "nat \<Rightarrow> char" where
  "hex_digit n = ''0123456789abcdef'' ! (n mod 16)"

definition hex_byte :: "nat \<Rightarrow> string" where
  "hex_byte n = [hex_digit (n div 16), hex_digit n]"

definition sha256_digest :: "nat list \<Rightarrow> u32 list" where
  "sha256_digest bs = foldl sha256_compress sha256_H0 (chunks 16 (be_words (sha256_pad bs)))"

text \<open>
  \<^verbatim>\<open>hashlib.sha256(s.encode()).hexdigest()\<close>: every string hashed below is the output of
  \<^verbatim>\<open>json.dumps\<close> with \<^verbatim>\<open>ensure_ascii\<close>, so \<^verbatim>\<open>encode\<close> yields one byte per character.
\<close>

definition sha256_hexdigest :: "string \<Rightarrow> string" where
  "sha256_hexdigest s =
     concat (map (\<lambda>w. concat (map hex_byte (be_bytes 4 (unat w))))
       (sha256_digest (map of_char s)))"

subsection \<open>JSON values, \<^verbatim>\<open>json.dumps\<close> and dictionaries\<close>

text \<open>
  A \<^verbatim>\<open>Dict[str, Any]\<close> is an object: its items in insertion order, every key once.
  Fractional numbers are not modelled.
\<close>

datatype json =
    JNull
  | JBool bool
  | JInt int
  | JStr string
  | JArr "json list"
  | JObj "(string \<times> json) list"

fun str_nat :: "nat \<Rightarrow> string" where
  "str_nat n = (if n < 10 then [hex_digit n] else str_nat (n div 10) @ [hex_digit (n mod 10)])"

declare str_nat.simps [simp del]

definition str_int :: "int \<Rightarrow> string" where
  "str_int i = (if i < 0 then CHR ''-'' # str_nat (nat (- i)) else str_nat (nat i))"

fun join :: "string \<Rightarrow> string list \<Rightarrow> string" where
  "join sep [] = []"
| "join sep [x] = x"
| "join sep (x # y # ys) = x @ sep @ join sep (y # ys)"

text \<open>
  The escapes of \<^verbatim>\<open>ensure_ascii\<close>: the quote, the backslash, the five named control
  characters, and the six-character hexadecimal escape for every other character outside
  space to tilde.
\<close>

definition escape_char :: "char \<Rightarrow> string" where
  "escape_char c =
     (if c = CHR 0x22 then [CHR 0x5C, CHR 0x22]
      else if c = CHR 0x5C then [CHR 0x5C, CHR 0x5C]
      else if c = CHR 0x0A then [CHR 0x5C, CHR ''n'']
      else if c = CHR 0x0D then [CHR 0x5C, CHR ''r'']
      else if c = CHR 0x09 then [CHR 0x5C, CHR ''t'']
      else if c = CHR 0x08 then [CHR 0x5C, CHR ''b'']
      else if c = CHR 0x0C then [CHR 0x5C, CHR ''f'']
      else if (of_char c :: nat) < 32 \<or> 126 < (of_char c :: nat)
        then [CHR 0x5C, CHR ''u'', CHR ''0'', CHR ''0''] @ hex_byte (of_char c)
      else [c])"

definition quote :: "string \<Rightarrow> string" where
  "quote s = [CHR 0x22] @ concat (map escape_char s) @ [CHR 0x22]"

lemma size_json_member:
  "(k, v) \<in> set kvs \<Longrightarrow> size v < Suc (size_list (size_prod (\<lambda>_. 0) size) kvs)"
  by (induction kvs) auto

text \<open>
  \<^verbatim>\<open>json.dumps(v, sort_keys=sk, separators=(isep, ksep))\<close>. With \<^verbatim>\<open>sort_keys\<close> the
  items of an object are sorted by key, in code-point order.
\<close>

function (sequential) json_dumps :: "bool \<Rightarrow> string \<Rightarrow> string \<Rightarrow> json \<Rightarrow> string" where
  "json_dumps sk isep ksep JNull = ''null''"
| "json_dumps sk isep ksep (JBool b) = (if b then ''true'' else ''false'')"
| "json_dumps sk isep ksep (JInt i) = str_int i"
| "json_dumps sk isep ksep (JStr s) = quote s"
| "json_dumps sk isep ksep (JArr xs) =
     ''['' @ join isep (map (json_dumps sk isep ksep) xs) @ '']''"
| "json_dumps sk isep ksep (JObj kvs) =
     ''{'' @ join isep (map (\<lambda>(k, v). quote k @ ksep @ json_dumps sk isep ksep v)
                        (if sk then sort_key fst kvs else kvs)) @ ''}''"
  by pat_completeness auto
termination
  by (relation "measure (\<lambda>(sk, isep, ksep, v). size v)")
     (auto simp: size_json_member less_Suc_eq_le size_list_estimation' split: if_splits)

declare json_dumps.simps [simp del]

text \<open>\<^verbatim>\<open>d.get(k)\<close>: the value, or \<^verbatim>\<open>None\<close>. \<^verbatim>\<open>d[k]\<close>: the value, or \<^verbatim>\<open>KeyError\<close>.\<close>

definition dict_get :: "('k \<times> json) list \<Rightarrow> 'k \<Rightarrow> json" where
  "dict_get d k = (case map_of d k of None \<Rightarrow> JNull | Some v \<Rightarrow> v)"

definition dict_index :: "('k \<times> 'v) list \<Rightarrow> 'k \<Rightarrow> pyexc + 'v" where
  "dict_index d k =
     (case map_of d k of None \<Rightarrow> Inl (PyExc ''KeyError'' []) | Some v \<Rightarrow> Inr v)"

text \<open>The text of a JSON string (the sort key of \<^verbatim>\<open>_seal\<close> reads two of them).\<close>

fun str_of :: "json \<Rightarrow> string" where
  "str_of (JStr s) = s"
| "str_of _ = []"

section \<open>The halt matrix (\<^verbatim>\<open>halt_matrix.py\<close>)\<close>

datatype Severity = INFO | WARN | FAULT | CRITICAL

fun Severity_value :: "Severity \<Rightarrow> string" where
  "Severity_value INFO = ''info''"
| "Severity_value WARN = ''warn''"
| "Severity_value FAULT = ''fault''"
| "Severity_value CRITICAL = ''critical''"

datatype OpClass =
    AUTHORITY_GRANT | AUTHORITY_REVOKE | AUTHORITY_EXTEND
  | CONFIG_MODIFY | CONFIG_DEPLOY | CONFIG_ROLLBACK
  | DATA_EXPORT | DATA_DELETE | DATA_MIGRATE
  | SYSTEM_RESTART | SYSTEM_UPGRADE | SYSTEM_SHUTDOWN
  | SECURITY_OVERRIDE | SECURITY_DOWNGRADE | KEY_ROTATION
  | QUORUM_OVERRIDE | CHALLENGE_DISMISS | INVARIANT_SUSPEND

fun OpClass_value :: "OpClass \<Rightarrow> string" where
  "OpClass_value AUTHORITY_GRANT = ''authority_grant''"
| "OpClass_value AUTHORITY_REVOKE = ''authority_revoke''"
| "OpClass_value AUTHORITY_EXTEND = ''authority_extend''"
| "OpClass_value CONFIG_MODIFY = ''config_modify''"
| "OpClass_value CONFIG_DEPLOY = ''config_deploy''"
| "OpClass_value CONFIG_ROLLBACK = ''config_rollback''"
| "OpClass_value DATA_EXPORT = ''data_export''"
| "OpClass_value DATA_DELETE = ''data_delete''"
| "OpClass_value DATA_MIGRATE = ''data_migrate''"
| "OpClass_value SYSTEM_RESTART = ''system_restart''"
| "OpClass_value SYSTEM_UPGRADE = ''system_upgrade''"
| "OpClass_value SYSTEM_SHUTDOWN = ''system_shutdown''"
| "OpClass_value SECURITY_OVERRIDE = ''security_override''"
| "OpClass_value SECURITY_DOWNGRADE = ''security_downgrade''"
| "OpClass_value KEY_ROTATION = ''key_rotation''"
| "OpClass_value QUORUM_OVERRIDE = ''quorum_override''"
| "OpClass_value CHALLENGE_DISMISS = ''challenge_dismiss''"
| "OpClass_value INVARIANT_SUSPEND = ''invariant_suspend''"

text \<open>\<^verbatim>\<open>for op in OpClass\<close> visits the members in the order of their declaration.\<close>

definition OpClass_members :: "OpClass list" where
  "OpClass_members =
    [AUTHORITY_GRANT, AUTHORITY_REVOKE, AUTHORITY_EXTEND,
     CONFIG_MODIFY, CONFIG_DEPLOY, CONFIG_ROLLBACK,
     DATA_EXPORT, DATA_DELETE, DATA_MIGRATE,
     SYSTEM_RESTART, SYSTEM_UPGRADE, SYSTEM_SHUTDOWN,
     SECURITY_OVERRIDE, SECURITY_DOWNGRADE, KEY_ROTATION,
     QUORUM_OVERRIDE, CHALLENGE_DISMISS, INVARIANT_SUSPEND]"

datatype HaltBehavior = ALLOW | WARN_ALLOW | QUEUE | HALT | DENY

fun HaltBehavior_value :: "HaltBehavior \<Rightarrow> string" where
  "HaltBehavior_value ALLOW = ''allow''"
| "HaltBehavior_value WARN_ALLOW = ''warn_allow''"
| "HaltBehavior_value QUEUE = ''queue''"
| "HaltBehavior_value HALT = ''halt''"
| "HaltBehavior_value DENY = ''deny''"

record HaltMatrixEntry =
  severity :: Severity
  op_class :: OpClass
  behavior :: HaltBehavior
  requires_quorum :: bool
  requires_challenge_clear :: bool
  audit_level :: string

definition to_dict :: "HaltMatrixEntry \<Rightarrow> json" where
  "to_dict e = JObj
     [(''severity'', JStr (Severity_value (severity e))),
      (''op_class'', JStr (OpClass_value (op_class e))),
      (''behavior'', JStr (HaltBehavior_value (behavior e))),
      (''requires_quorum'', JBool (requires_quorum e)),
      (''requires_challenge_clear'', JBool (requires_challenge_clear e)),
      (''audit_level'', JStr (audit_level e))]"

text \<open>The object: the dictionary \<^verbatim>\<open>_matrix\<close> in insertion order, and the seal.\<close>

record HaltMatrix =
  matrix :: "((Severity \<times> OpClass) \<times> HaltMatrixEntry) list"
  sealed :: bool
  seal_hash :: "string option"

text \<open>\<^verbatim>\<open>_add\<close>, with its keyword defaults written at each call.\<close>

definition add :: "Severity \<Rightarrow> OpClass \<Rightarrow> HaltBehavior \<Rightarrow> bool \<Rightarrow> bool \<Rightarrow> string
    \<Rightarrow> HaltMatrix \<Rightarrow> pyexc + HaltMatrix" where
  "add sev op beh rq rc al self =
     (if sealed self then Inl (PyExc ''RuntimeError'' ''Cannot modify sealed matrix'')
      else Inr (self\<lparr>matrix :=
        AList.update (sev, op)
          \<lparr>severity = sev, op_class = op, behavior = beh, requires_quorum = rq,
           requires_challenge_clear = rc, audit_level = al\<rparr>
          (matrix self)\<rparr>))"

text \<open>The bodies of the four loops of \<^verbatim>\<open>_build_matrix\<close>.\<close>

definition build_info :: "OpClass \<Rightarrow> HaltMatrix \<Rightarrow> pyexc + HaltMatrix" where
  "build_info op =
     (if op \<in> set [INVARIANT_SUSPEND, SECURITY_DOWNGRADE]
        then add INFO op HALT True True ''standard''
      else if op \<in> set [QUORUM_OVERRIDE, CHALLENGE_DISMISS]
        then add INFO op WARN_ALLOW True False ''standard''
      else add INFO op ALLOW False False ''standard'')"

definition build_warn :: "OpClass \<Rightarrow> HaltMatrix \<Rightarrow> pyexc + HaltMatrix" where
  "build_warn op =
     (if op \<in> set [INVARIANT_SUSPEND, SECURITY_DOWNGRADE, SECURITY_OVERRIDE]
        then add WARN op HALT True True ''standard''
      else if op \<in> set [SYSTEM_UPGRADE, CONFIG_DEPLOY, DATA_MIGRATE]
        then add WARN op QUEUE False False ''standard''
      else add WARN op WARN_ALLOW False False ''elevated'')"

definition build_fault :: "OpClass \<Rightarrow> HaltMatrix \<Rightarrow> pyexc + HaltMatrix" where
  "build_fault op =
     (if op \<in> set [INVARIANT_SUSPEND, SECURITY_DOWNGRADE, SECURITY_OVERRIDE, QUORUM_OVERRIDE]
        then add FAULT op DENY False False ''standard''
      else if op \<in> set [AUTHORITY_GRANT, AUTHORITY_EXTEND, CONFIG_MODIFY, CONFIG_DEPLOY,
                         SYSTEM_UPGRADE, DATA_DELETE, DATA_MIGRATE]
        then add FAULT op HALT False True ''standard''
      else add FAULT op QUEUE False False ''elevated'')"

definition build_critical :: "OpClass \<Rightarrow> HaltMatrix \<Rightarrow> pyexc + HaltMatrix" where
  "build_critical op =
     (if op \<in> set [AUTHORITY_REVOKE, CONFIG_ROLLBACK, SYSTEM_SHUTDOWN]
        then add CRITICAL op WARN_ALLOW True False ''maximum''
      else if op = CHALLENGE_DISMISS
        then add CRITICAL op DENY False False ''standard''
      else add CRITICAL op HALT True True ''maximum'')"

definition build_matrix :: "HaltMatrix \<Rightarrow> pyexc + HaltMatrix" where
  "build_matrix self =
     then_do (for_each build_info OpClass_members self) (\<lambda>self.
     then_do (for_each build_warn OpClass_members self) (\<lambda>self.
     then_do (for_each build_fault OpClass_members self) (\<lambda>self.
     for_each build_critical OpClass_members self)))"

text \<open>
  \<^verbatim>\<open>_seal\<close>: the entries as dictionaries, sorted by the pair of their severity and
  operation class texts, dumped with sorted keys and the default separators, hashed.
\<close>

definition seal_content :: "HaltMatrix \<Rightarrow> string" where
  "seal_content self =
     json_dumps True '', '' '': ''
       (JArr (sort_key (\<lambda>x. (str_of (dict_get (case x of JObj d \<Rightarrow> d | _ \<Rightarrow> []) ''severity''),
                               str_of (dict_get (case x of JObj d \<Rightarrow> d | _ \<Rightarrow> []) ''op_class'')))
                (map (to_dict \<circ> snd) (matrix self))))"

definition seal :: "HaltMatrix \<Rightarrow> HaltMatrix" where
  "seal self = self\<lparr>seal_hash := Some (sha256_hexdigest (seal_content self)), sealed := True\<rparr>"

text \<open>\<^verbatim>\<open>HaltMatrix.__init__\<close>, and the module's singleton.\<close>

definition new_HaltMatrix :: "pyexc + HaltMatrix" where
  "new_HaltMatrix =
     then_do (build_matrix \<lparr>matrix = [], sealed = False, seal_hash = None\<rparr>) (\<lambda>self.
     Inr (seal self))"

definition HALT_MATRIX :: HaltMatrix where
  "HALT_MATRIX =
     (case new_HaltMatrix of
        Inr self \<Rightarrow> self
      | Inl e \<Rightarrow> \<lparr>matrix = [], sealed = False, seal_hash = None\<rparr>)"

definition decide :: "HaltMatrix \<Rightarrow> Severity \<Rightarrow> OpClass \<Rightarrow> pyexc + HaltMatrixEntry" where
  "decide self sev op =
     (if (sev, op) \<notin> fst ` set (matrix self)
        then Inr \<lparr>severity = sev, op_class = op, behavior = DENY, requires_quorum = True,
                  requires_challenge_clear = True, audit_level = ''maximum''\<rparr>
      else dict_index (matrix self) (sev, op))"

definition can_proceed :: "HaltMatrix \<Rightarrow> Severity \<Rightarrow> OpClass \<Rightarrow> bool \<Rightarrow> bool
    \<Rightarrow> pyexc + (bool \<times> string)" where
  "can_proceed self sev op quorum_satisfied challenges_clear =
     then_do (decide self sev op) (\<lambda>entry.
       if behavior entry = DENY then
         Inr (False, ''Operation '' @ OpClass_value op @ '' denied at severity '' @ Severity_value sev)
       else if behavior entry = HALT then
         (if requires_quorum entry \<and> \<not> quorum_satisfied then
            Inr (False, ''Operation '' @ OpClass_value op @ '' halted: quorum required'')
          else if requires_challenge_clear entry \<and> \<not> challenges_clear then
            Inr (False, ''Operation '' @ OpClass_value op @ '' halted: challenges must be cleared'')
          else
            Inr (True, ''Operation '' @ OpClass_value op @ '' allowed after requirements satisfied''))
       else if behavior entry = QUEUE then
         Inr (False, ''Operation '' @ OpClass_value op @ '' queued pending remediation'')
       else
         Inr (True, ''Operation '' @ OpClass_value op @ '' allowed at severity '' @ Severity_value sev))"

text \<open>\<^verbatim>\<open>evaluate_operation\<close>, on the singleton; the record it returns is a dictionary.\<close>

definition evaluate_operation :: "string \<Rightarrow> OpClass \<Rightarrow> Severity \<Rightarrow> bool \<Rightarrow> bool \<Rightarrow> pyexc + json" where
  "evaluate_operation now op current_severity quorum_satisfied challenges_clear =
     then_do (decide HALT_MATRIX current_severity op) (\<lambda>entry.
     then_do (can_proceed HALT_MATRIX current_severity op quorum_satisfied challenges_clear)
       (\<lambda>(can_proceed, reason).
     Inr (JObj
       [(''timestamp'', JStr now),
        (''op_class'', JStr (OpClass_value op)),
        (''severity'', JStr (Severity_value current_severity)),
        (''behavior'', JStr (HaltBehavior_value (behavior entry))),
        (''decision'', JStr (if can_proceed then ''PROCEED'' else ''BLOCKED'')),
        (''reason'', JStr reason),
        (''requirements'', JObj
           [(''quorum_required'', JBool (requires_quorum entry)),
            (''quorum_satisfied'', JBool quorum_satisfied),
            (''challenges_clear_required'', JBool (requires_challenge_clear entry)),
            (''challenges_clear'', JBool challenges_clear)]),
        (''audit_level'', JStr (audit_level entry)),
        (''matrix_hash'', (case seal_hash HALT_MATRIX of None \<Rightarrow> JNull | Some h \<Rightarrow> JStr h))])))"

text \<open>The table \<^verbatim>\<open>_build_matrix\<close> leaves in \<^verbatim>\<open>_matrix\<close>, row by row.\<close>

definition built_rows :: "((Severity \<times> OpClass) \<times> HaltMatrixEntry) list" where
  "built_rows =
    [((INFO, AUTHORITY_GRANT), \<lparr>severity = INFO, op_class = AUTHORITY_GRANT, behavior = ALLOW,
        requires_quorum = False, requires_challenge_clear = False, audit_level = ''standard''\<rparr>),
     ((INFO, AUTHORITY_REVOKE), \<lparr>severity = INFO, op_class = AUTHORITY_REVOKE, behavior = ALLOW,
        requires_quorum = False, requires_challenge_clear = False, audit_level = ''standard''\<rparr>),
     ((INFO, AUTHORITY_EXTEND), \<lparr>severity = INFO, op_class = AUTHORITY_EXTEND, behavior = ALLOW,
        requires_quorum = False, requires_challenge_clear = False, audit_level = ''standard''\<rparr>),
     ((INFO, CONFIG_MODIFY), \<lparr>severity = INFO, op_class = CONFIG_MODIFY, behavior = ALLOW,
        requires_quorum = False, requires_challenge_clear = False, audit_level = ''standard''\<rparr>),
     ((INFO, CONFIG_DEPLOY), \<lparr>severity = INFO, op_class = CONFIG_DEPLOY, behavior = ALLOW,
        requires_quorum = False, requires_challenge_clear = False, audit_level = ''standard''\<rparr>),
     ((INFO, CONFIG_ROLLBACK), \<lparr>severity = INFO, op_class = CONFIG_ROLLBACK, behavior = ALLOW,
        requires_quorum = False, requires_challenge_clear = False, audit_level = ''standard''\<rparr>),
     ((INFO, DATA_EXPORT), \<lparr>severity = INFO, op_class = DATA_EXPORT, behavior = ALLOW,
        requires_quorum = False, requires_challenge_clear = False, audit_level = ''standard''\<rparr>),
     ((INFO, DATA_DELETE), \<lparr>severity = INFO, op_class = DATA_DELETE, behavior = ALLOW,
        requires_quorum = False, requires_challenge_clear = False, audit_level = ''standard''\<rparr>),
     ((INFO, DATA_MIGRATE), \<lparr>severity = INFO, op_class = DATA_MIGRATE, behavior = ALLOW,
        requires_quorum = False, requires_challenge_clear = False, audit_level = ''standard''\<rparr>),
     ((INFO, SYSTEM_RESTART), \<lparr>severity = INFO, op_class = SYSTEM_RESTART, behavior = ALLOW,
        requires_quorum = False, requires_challenge_clear = False, audit_level = ''standard''\<rparr>),
     ((INFO, SYSTEM_UPGRADE), \<lparr>severity = INFO, op_class = SYSTEM_UPGRADE, behavior = ALLOW,
        requires_quorum = False, requires_challenge_clear = False, audit_level = ''standard''\<rparr>),
     ((INFO, SYSTEM_SHUTDOWN), \<lparr>severity = INFO, op_class = SYSTEM_SHUTDOWN, behavior = ALLOW,
        requires_quorum = False, requires_challenge_clear = False, audit_level = ''standard''\<rparr>),
     ((INFO, SECURITY_OVERRIDE), \<lparr>severity = INFO, op_class = SECURITY_OVERRIDE, behavior = ALLOW,
        requires_quorum = False, requires_challenge_clear = False, audit_level = ''standard''\<rparr>),
     ((INFO, SECURITY_DOWNGRADE), \<lparr>severity = INFO, op_class = SECURITY_DOWNGRADE, behavior = HALT,
        requires_quorum = True, requires_challenge_clear = True, audit_level = ''standard''\<rparr>),
     ((INFO, KEY_ROTATION), \<lparr>severity = INFO, op_class = KEY_ROTATION, behavior = ALLOW,
        requires_quorum = False, requires_challenge_clear = False, audit_level = ''standard''\<rparr>),
     ((INFO, QUORUM_OVERRIDE), \<lparr>severity = INFO, op_class = QUORUM_OVERRIDE, behavior = WARN_ALLOW,
        requires_quorum = True, requires_challenge_clear = False, audit_level = ''standard''\<rparr>),
     ((INFO, CHALLENGE_DISMISS), \<lparr>severity = INFO, op_class = CHALLENGE_DISMISS, behavior = WARN_ALLOW,
        requires_quorum = True, requires_challenge_clear = False, audit_level = ''standard''\<rparr>),
     ((INFO, INVARIANT_SUSPEND), \<lparr>severity = INFO, op_class = INVARIANT_SUSPEND, behavior = HALT,
        requires_quorum = True, requires_challenge_clear = True, audit_level = ''standard''\<rparr>),
     ((WARN, AUTHORITY_GRANT), \<lparr>severity = WARN, op_class = AUTHORITY_GRANT, behavior = WARN_ALLOW,
        requires_quorum = False, requires_challenge_clear = False, audit_level = ''elevated''\<rparr>),
     ((WARN, AUTHORITY_REVOKE), \<lparr>severity = WARN, op_class = AUTHORITY_REVOKE, behavior = WARN_ALLOW,
        requires_quorum = False, requires_challenge_clear = False, audit_level = ''elevated''\<rparr>),
     ((WARN, AUTHORITY_EXTEND), \<lparr>severity = WARN, op_class = AUTHORITY_EXTEND, behavior = WARN_ALLOW,
        requires_quorum = False, requires_challenge_clear = False, audit_level = ''elevated''\<rparr>),
     ((WARN, CONFIG_MODIFY), \<lparr>severity = WARN, op_class = CONFIG_MODIFY, behavior = WARN_ALLOW,
        requires_quorum = False, requires_challenge_clear = False, audit_level = ''elevated''\<rparr>),
     ((WARN, CONFIG_DEPLOY), \<lparr>severity = WARN, op_class = CONFIG_DEPLOY, behavior = QUEUE,
        requires_quorum = False, requires_challenge_clear = False, audit_level = ''standard''\<rparr>),
     ((WARN, CONFIG_ROLLBACK), \<lparr>severity = WARN, op_class = CONFIG_ROLLBACK, behavior = WARN_ALLOW,
        requires_quorum = False, requires_challenge_clear = False, audit_level = ''elevated''\<rparr>),
     ((WARN, DATA_EXPORT), \<lparr>severity = WARN, op_class = DATA_EXPORT, behavior = WARN_ALLOW,
        requires_quorum = False, requires_challenge_clear = False, audit_level = ''elevated''\<rparr>),
     ((WARN, DATA_DELETE), \<lparr>severity = WARN, op_class = DATA_DELETE, behavior = WARN_ALLOW,
        requires_quorum = False, requires_challenge_clear = False, audit_level = ''elevated''\<rparr>),
     ((WARN, DATA_MIGRATE), \<lparr>severity = WARN, op_class = DATA_MIGRATE, behavior = QUEUE,
        requires_quorum = False, requires_challenge_clear = False, audit_level = ''standard''\<rparr>),
     ((WARN, SYSTEM_RESTART), \<lparr>severity = WARN, op_class = SYSTEM_RESTART, behavior = WARN_ALLOW,
        requires_quorum = False, requires_challenge_clear = False, audit_level = ''elevated''\<rparr>),
     ((WARN, SYSTEM_UPGRADE), \<lparr>severity = WARN, op_class = SYSTEM_UPGRADE, behavior = QUEUE,
        requires_quorum = False, requires_challenge_clear = False, audit_level = ''standard''\<rparr>),
     ((WARN, SYSTEM_SHUTDOWN), \<lparr>severity = WARN, op_class = SYSTEM_SHUTDOWN, behavior = WARN_ALLOW,
        requires_quorum = False, requires_challenge_clear = False, audit_level = ''elevated''\<rparr>),
     ((WARN, SECURITY_OVERRIDE), \<lparr>severity = WARN, op_class = SECURITY_OVERRIDE, behavior = HALT,
        requires_quorum = True, requires_challenge_clear = True, audit_level = ''standard''\<rparr>),
     ((WARN, SECURITY_DOWNGRADE), \<lparr>severity = WARN, op_class = SECURITY_DOWNGRADE, behavior = HALT,
        requires_quorum = True, requires_challenge_clear = True, audit_level = ''standard''\<rparr>),
     ((WARN, KEY_ROTATION), \<lparr>severity = WARN, op_class = KEY_ROTATION, behavior = WARN_ALLOW,
        requires_quorum = False, requires_challenge_clear = False, audit_level = ''elevated''\<rparr>),
     ((WARN, QUORUM_OVERRIDE), \<lparr>severity = WARN, op_class = QUORUM_OVERRIDE, behavior = WARN_ALLOW,
        requires_quorum = False, requires_challenge_clear = False, audit_level = ''elevated''\<rparr>),
     ((WARN, CHALLENGE_DISMISS), \<lparr>severity = WARN, op_class = CHALLENGE_DISMISS, behavior = WARN_ALLOW,
        requires_quorum = False, requires_challenge_clear = False, audit_level = ''elevated''\<rparr>),
     ((WARN, INVARIANT_SUSPEND), \<lparr>severity = WARN, op_class = INVARIANT_SUSPEND, behavior = HALT,
        requires_quorum = True, requires_challenge_clear = True, audit_level = ''standard''\<rparr>),
     ((FAULT, AUTHORITY_GRANT), \<lparr>severity = FAULT, op_class = AUTHORITY_GRANT, behavior = HALT,
        requires_quorum = False, requires_challenge_clear = True, audit_level = ''standard''\<rparr>),
     ((FAULT, AUTHORITY_REVOKE), \<lparr>severity = FAULT, op_class = AUTHORITY_REVOKE, behavior = QUEUE,
        requires_quorum = False, requires_challenge_clear = False, audit_level = ''elevated''\<rparr>),
     ((FAULT, AUTHORITY_EXTEND), \<lparr>severity = FAULT, op_class = AUTHORITY_EXTEND, behavior = HALT,
        requires_quorum = False, requires_challenge_clear = True, audit_level = ''standard''\<rparr>),
     ((FAULT, CONFIG_MODIFY), \<lparr>severity = FAULT, op_class = CONFIG_MODIFY, behavior = HALT,
        requires_quorum = False, requires_challenge_clear = True, audit_level = ''standard''\<rparr>),
     ((FAULT, CONFIG_DEPLOY), \<lparr>severity = FAULT, op_class = CONFIG_DEPLOY, behavior = HALT,
        requires_quorum = False, requires_challenge_clear = True, audit_level = ''standard''\<rparr>),
     ((FAULT, CONFIG_ROLLBACK), \<lparr>severity = FAULT, op_class = CONFIG_ROLLBACK, behavior = QUEUE,
        requires_quorum = False, requires_challenge_clear = False, audit_level = ''elevated''\<rparr>),
     ((FAULT, DATA_EXPORT), \<lparr>severity = FAULT, op_class = DATA_EXPORT, behavior = QUEUE,
        requires_quorum = False, requires_challenge_clear = False, audit_level = ''elevated''\<rparr>),
     ((FAULT, DATA_DELETE), \<lparr>severity = FAULT, op_class = DATA_DELETE, behavior = HALT,
        requires_quorum = False, requires_challenge_clear = True, audit_level = ''standard''\<rparr>),
     ((FAULT, DATA_MIGRATE), \<lparr>severity = FAULT, op_class = DATA_MIGRATE, behavior = HALT,
        requires_quorum = False, requires_challenge_clear = True, audit_level = ''standard''\<rparr>),
     ((FAULT, SYSTEM_RESTART), \<lparr>severity = FAULT, op_class = SYSTEM_RESTART, behavior = QUEUE,
        requires_quorum = False, requires_challenge_clear = False, audit_level = ''elevated''\<rparr>),
     ((FAULT, SYSTEM_UPGRADE), \<lparr>severity = FAULT, op_class = SYSTEM_UPGRADE, behavior = HALT,
        requires_quorum = False, requires_challenge_clear = True, audit_level = ''standard''\<rparr>),
     ((FAULT, SYSTEM_SHUTDOWN), \<lparr>severity = FAULT, op_class = SYSTEM_SHUTDOWN, behavior = QUEUE,
        requires_quorum = False, requires_challenge_clear = False, audit_level = ''elevated''\<rparr>),
     ((FAULT, SECURITY_OVERRIDE), \<lparr>severity = FAULT, op_class = SECURITY_OVERRIDE, behavior = DENY,
        requires_quorum = False, requires_challenge_clear = False, audit_level = ''standard''\<rparr>),
     ((FAULT, SECURITY_DOWNGRADE), \<lparr>severity = FAULT, op_class = SECURITY_DOWNGRADE, behavior = DENY,
        requires_quorum = False, requires_challenge_clear = False, audit_level = ''standard''\<rparr>),
     ((FAULT, KEY_ROTATION), \<lparr>severity = FAULT, op_class = KEY_ROTATION, behavior = QUEUE,
        requires_quorum = False, requires_challenge_clear = False, audit_level = ''elevated''\<rparr>),
     ((FAULT, QUORUM_OVERRIDE), \<lparr>severity = FAULT, op_class = QUORUM_OVERRIDE, behavior = DENY,
        requires_quorum = False, requires_challenge_clear = False, audit_level = ''standard''\<rparr>),
     ((FAULT, CHALLENGE_DISMISS), \<lparr>severity = FAULT, op_class = CHALLENGE_DISMISS, behavior = QUEUE,
        requires_quorum = False, requires_challenge_clear = False, audit_level = ''elevated''\<rparr>),
     ((FAULT, INVARIANT_SUSPEND), \<lparr>severity = FAULT, op_class = INVARIANT_SUSPEND, behavior = DENY,
        requires_quorum = False, requires_challenge_clear = False, audit_level = ''standard''\<rparr>),
     ((CRITICAL, AUTHORITY_GRANT), \<lparr>severity = CRITICAL, op_class = AUTHORITY_GRANT, behavior = HALT,
        requires_quorum = True, requires_challenge_clear = True, audit_level = ''maximum''\<rparr>),
     ((CRITICAL, AUTHORITY_REVOKE), \<lparr>severity = CRITICAL, op_class = AUTHORITY_REVOKE, behavior = WARN_ALLOW,
        requires_quorum = True, requires_challenge_clear = False, audit_level = ''maximum''\<rparr>),
     ((CRITICAL, AUTHORITY_EXTEND), \<lparr>severity = CRITICAL, op_class = AUTHORITY_EXTEND, behavior = HALT,
        requires_quorum = True, requires_challenge_clear = True, audit_level = ''maximum''\<rparr>),
     ((CRITICAL, CONFIG_MODIFY), \<lparr>severity = CRITICAL, op_class = CONFIG_MODIFY, behavior = HALT,
        requires_quorum = True, requires_challenge_clear = True, audit_level = ''maximum''\<rparr>),
     ((CRITICAL, CONFIG_DEPLOY), \<lparr>severity = CRITICAL, op_class = CONFIG_DEPLOY, behavior = HALT,
        requires_quorum = True, requires_challenge_clear = True, audit_level = ''maximum''\<rparr>),
     ((CRITICAL, CONFIG_ROLLBACK), \<lparr>severity = CRITICAL, op_class = CONFIG_ROLLBACK, behavior = WARN_ALLOW,
        requires_quorum = True, requires_challenge_clear = False, audit_level = ''maximum''\<rparr>),
     ((CRITICAL, DATA_EXPORT), \<lparr>severity = CRITICAL, op_class = DATA_EXPORT, behavior = HALT,
        requires_quorum = True, requires_challenge_clear = True, audit_level = ''maximum''\<rparr>),
     ((CRITICAL, DATA_DELETE), \<lparr>severity = CRITICAL, op_class = DATA_DELETE, behavior = HALT,
        requires_quorum = True, requires_challenge_clear = True, audit_level = ''maximum''\<rparr>),
     ((CRITICAL, DATA_MIGRATE), \<lparr>severity = CRITICAL, op_class = DATA_MIGRATE, behavior = HALT,
        requires_quorum = True, requires_challenge_clear = True, audit_level = ''maximum''\<rparr>),
     ((CRITICAL, SYSTEM_RESTART), \<lparr>severity = CRITICAL, op_class = SYSTEM_RESTART, behavior = HALT,
        requires_quorum = True, requires_challenge_clear = True, audit_level = ''maximum''\<rparr>),
     ((CRITICAL, SYSTEM_UPGRADE), \<lparr>severity = CRITICAL, op_class = SYSTEM_UPGRADE, behavior = HALT,
        requires_quorum = True, requires_challenge_clear = True, audit_level = ''maximum''\<rparr>),
     ((CRITICAL, SYSTEM_SHUTDOWN), \<lparr>severity = CRITICAL, op_class = SYSTEM_SHUTDOWN, behavior = WARN_ALLOW,
        requires_quorum = True, requires_challenge_clear = False, audit_level = ''maximum''\<rparr>),
     ((CRITICAL, SECURITY_OVERRIDE), \<lparr>severity = CRITICAL, op_class = SECURITY_OVERRIDE, behavior = HALT,
        requires_quorum = True, requires_challenge_clear = True, audit_level = ''maximum''\<rparr>),
     ((CRITICAL, SECURITY_DOWNGRADE), \<lparr>severity = CRITICAL, op_class = SECURITY_DOWNGRADE, behavior = HALT,
        requires_quorum = True, requires_challenge_clear = True, audit_level = ''maximum''\<rparr>),
     ((CRITICAL, KEY_ROTATION), \<lparr>severity = CRITICAL, op_class = KEY_ROTATION, behavior = HALT,
        requires_quorum = True, requires_challenge_clear = True, audit_level = ''maximum''\<rparr>),
     ((CRITICAL, QUORUM_OVERRIDE), \<lparr>severity = CRITICAL, op_class = QUORUM_OVERRIDE, behavior = HALT,
        requires_quorum = True, requires_challenge_clear = True, audit_level = ''maximum''\<rparr>),
     ((CRITICAL, CHALLENGE_DISMISS), \<lparr>severity = CRITICAL, op_class = CHALLENGE_DISMISS, behavior = DENY,
        requires_quorum = False, requires_challenge_clear = False, audit_level = ''standard''\<rparr>),
     ((CRITICAL, INVARIANT_SUSPEND), \<lparr>severity = CRITICAL, op_class = INVARIANT_SUSPEND, behavior = HALT,
        requires_quorum = True, requires_challenge_clear = True, audit_level = ''maximum''\<rparr>)]"

section \<open>Invariants and their registry (\<^verbatim>\<open>invariants.py\<close>)\<close>

text \<open>
  The module has a \<^verbatim>\<open>Severity\<close> enumeration of its own; its members carry a prefix here,
  since the halt matrix owns the plain names.
\<close>

datatype InvSeverity = Inv_INFO | Inv_LOW | Inv_MEDIUM | Inv_HIGH | Inv_CRITICAL

fun InvSeverity_value :: "InvSeverity \<Rightarrow> string" where
  "InvSeverity_value Inv_INFO = ''INFO''"
| "InvSeverity_value Inv_LOW = ''LOW''"
| "InvSeverity_value Inv_MEDIUM = ''MEDIUM''"
| "InvSeverity_value Inv_HIGH = ''HIGH''"
| "InvSeverity_value Inv_CRITICAL = ''CRITICAL''"

datatype InvariantStatus = PASS | FAIL | SKIP | ERROR

fun InvariantStatus_value :: "InvariantStatus \<Rightarrow> string" where
  "InvariantStatus_value PASS = ''PASS''"
| "InvariantStatus_value FAIL = ''FAIL''"
| "InvariantStatus_value SKIP = ''SKIP''"
| "InvariantStatus_value ERROR = ''ERROR''"

record InvariantResult =
  invariant_id :: string
  name :: string
  status :: InvariantStatus
  result_severity :: InvSeverity
  reason :: string
  timestamp :: string
  evidence :: "(string \<times> json) list"
  hash :: string

definition compute_hash :: "InvariantResult \<Rightarrow> string" where
  "compute_hash self =
     (let data = JObj
        [(''invariant_id'', JStr (invariant_id self)),
         (''name'', JStr (name self)),
         (''status'', JStr (InvariantStatus_value (status self))),
         (''severity'', JStr (InvSeverity_value (result_severity self))),
         (''reason'', JStr (reason self)),
         (''timestamp'', JStr (timestamp self)),
         (''evidence'', JObj (evidence self))];
          canonical = json_dumps True '','' '':'' data
      in take 16 (sha256_hexdigest canonical))"

text \<open>\<^verbatim>\<open>__post_init__\<close>: \<^verbatim>\<open>not self.hash\<close> holds of the empty string only.\<close>

definition post_init :: "InvariantResult \<Rightarrow> InvariantResult" where
  "post_init self = (if hash self = [] then self\<lparr>hash := compute_hash self\<rparr> else self)"

text \<open>
  The constructor the dataclass generates: the fields are stored, then \<^verbatim>\<open>__post_init__\<close>
  runs. The default of \<^verbatim>\<open>timestamp\<close> is the clock, of \<^verbatim>\<open>hash\<close> the empty string.
\<close>

definition new_InvariantResult :: "string \<Rightarrow> string \<Rightarrow> InvariantStatus \<Rightarrow> InvSeverity \<Rightarrow> string
    \<Rightarrow> string \<Rightarrow> (string \<times> json) list \<Rightarrow> string \<Rightarrow> InvariantResult" where
  "new_InvariantResult i n st sev rsn ts ev h =
     post_init \<lparr>invariant_id = i, name = n, status = st, result_severity = sev, reason = rsn,
                timestamp = ts, evidence = ev, hash = h\<rparr>"

definition result_to_dict :: "InvariantResult \<Rightarrow> json" where
  "result_to_dict self = JObj
     [(''invariant_id'', JStr (invariant_id self)),
      (''name'', JStr (name self)),
      (''status'', JStr (InvariantStatus_value (status self))),
      (''severity'', JStr (InvSeverity_value (result_severity self))),
      (''reason'', JStr (reason self)),
      (''timestamp'', JStr (timestamp self)),
      (''evidence'', JObj (evidence self)),
      (''hash'', JStr (hash self))]"

definition is_failure :: "InvariantResult \<Rightarrow> bool" where
  "is_failure self = (status self \<in> set [FAIL, ERROR])"

text \<open>
  An invariant. Its validator reads the context dictionary and returns a result or
  raises; \<open>Inl\<close> stands for an exception of class \<^verbatim>\<open>Exception\<close>, the ones the
  \<^verbatim>\<open>except\<close> clause of \<^verbatim>\<open>validate\<close> catches.
\<close>

record Invariant =
  inv_id :: string
  inv_name :: string
  description :: string
  inv_severity :: InvSeverity
  validator :: "(string \<times> json) list \<Rightarrow> pyexc + InvariantResult"
  enabled :: bool
  agi_safety :: bool

definition validate :: "string \<Rightarrow> Invariant \<Rightarrow> (string \<times> json) list \<Rightarrow> InvariantResult" where
  "validate now self ctx =
     (if \<not> enabled self then
        new_InvariantResult (inv_id self) (inv_name self) SKIP (inv_severity self)
          ''Invariant disabled'' now [(''enabled'', JBool False)] []
      else
        (case validator self ctx of
           Inr result \<Rightarrow> result
         | Inl e \<Rightarrow>
             new_InvariantResult (inv_id self) (inv_name self) ERROR Inv_CRITICAL
               (''Validator error: '' @ exception_text e) now
               [(''exception'', JStr (exception_text e)),
                (''exception_type'', JStr (exception_type e))] []))"

text \<open>The registry: the dictionary \<^verbatim>\<open>_invariants\<close> in insertion order, and the history.\<close>

record InvariantRegistry =
  invariants :: "(string \<times> Invariant) list"
  results_history :: "InvariantResult list"

definition new_InvariantRegistry :: InvariantRegistry where
  "new_InvariantRegistry = \<lparr>invariants = [], results_history = []\<rparr>"

definition register :: "InvariantRegistry \<Rightarrow> Invariant \<Rightarrow> InvariantRegistry" where
  "register self invariant =
     self\<lparr>invariants := AList.update (inv_id invariant) invariant (invariants self)\<rparr>"


fun validate_all_loop :: "string \<Rightarrow> (string \<times> json) list \<Rightarrow> Invariant list
    \<Rightarrow> InvariantResult list \<times> InvariantRegistry \<Rightarrow> InvariantResult list \<times> InvariantRegistry" where
  "validate_all_loop now ctx [] (results, self) = (results, self)"
| "validate_all_loop now ctx (invariant # rest) (results, self) =
     (let result = validate now invariant ctx
      in validate_all_loop now ctx rest
           (results @ [result], self\<lparr>results_history := results_history self @ [result]\<rparr>))"

definition validate_all :: "string \<Rightarrow> InvariantRegistry \<Rightarrow> (string \<times> json) list
    \<Rightarrow> InvariantResult list \<times> InvariantRegistry" where
  "validate_all now self ctx = validate_all_loop now ctx (map snd (invariants self)) ([], self)"

definition get_failures :: "InvariantResult list \<Rightarrow> InvariantResult list" where
  "get_failures results = filter is_failure results"

definition has_critical_failure :: "InvariantResult list \<Rightarrow> bool" where
  "has_critical_failure results =
     list_ex (\<lambda>r. is_failure r \<and> result_severity r = Inv_CRITICAL) results"

section \<open>The evidence ledger (\<^verbatim>\<open>governance_daemon.py\<close>)\<close>

text \<open>
  A line of the ledger file is what \<^verbatim>\<open>json.loads\<close> makes of it: a value, or
  \<^verbatim>\<open>JSONDecodeError\<close>. A line written by \<^verbatim>\<open>json.dumps\<close> reads back as the value
  written.
\<close>

datatype line = Malformed | Parsed json

text \<open>
  What a \<^verbatim>\<open>with open(path, 'a')\<close> block comes to. It succeeds, or it raises an
  \<^verbatim>\<open>OSError\<close> (\<^verbatim>\<open>IOError\<close> is the same class) from \<^verbatim>\<open>open\<close>, \<^verbatim>\<open>write\<close>, the flush
  or \<^verbatim>\<open>close\<close>; a block that fails leaves on the file the lines given with the failure
  (whole or broken ones), or leaves the file as it was (\<open>None\<close>).
\<close>

datatype io_outcome = Io_ok | Io_fails pyexc "line list option"

text \<open>
  The file is absent (\<open>None\<close>) or holds its lines. \<open>io_script\<close> lists what the coming
  blocks that append to it come to, in order; past its end every block succeeds.
\<close>

record ledger_file =
  file_lines :: "line list option"
  io_script :: "io_outcome list"

text \<open>\<^verbatim>\<open>_last_hash\<close> is \<^verbatim>\<open>None\<close> (\<open>JNull\<close>) or whatever the last line stores.\<close>

record EvidenceLedger =
  path :: string
  last_hash :: json

text \<open>
  Python's \<^verbatim>\<open>==\<close> on the values \<^verbatim>\<open>json.loads\<close> returns: \<^verbatim>\<open>True\<close> equals 1 and
  \<^verbatim>\<open>False\<close> equals 0, lists compare by position, dictionaries by key.
\<close>

function (sequential) py_eq :: "json \<Rightarrow> json \<Rightarrow> bool" where
  "py_eq JNull JNull = True"
| "py_eq (JBool a) (JBool b) = (a = b)"
| "py_eq (JBool a) (JInt n) = (n = (if a then 1 else 0))"
| "py_eq (JInt n) (JBool a) = (n = (if a then 1 else 0))"
| "py_eq (JInt m) (JInt n) = (m = n)"
| "py_eq (JStr s) (JStr t) = (s = t)"
| "py_eq (JArr xs) (JArr ys) = list_all2 py_eq xs ys"
| "py_eq (JObj d) (JObj d') =
     (length d = length d' \<and>
      list_all (\<lambda>(k, v). case map_of d' k of None \<Rightarrow> False | Some w \<Rightarrow> py_eq v w) d)"
| "py_eq _ _ = False"
  by pat_completeness auto
termination
  by (relation "measure (\<lambda>(a, b). size a)")
     (auto simp: size_json_member less_Suc_eq_le size_list_estimation')

text \<open>\<^verbatim>\<open>_load_last_hash\<close>; \<^verbatim>\<open>get\<close> on a value that is no dictionary raises.\<close>

definition load_last_hash :: "EvidenceLedger \<Rightarrow> ledger_file \<Rightarrow> pyexc + EvidenceLedger" where
  "load_last_hash self f =
     (case file_lines f of
        None \<Rightarrow> Inr self
      | Some lines \<Rightarrow>
          (if lines = [] then Inr self
           else (case last lines of
                   Malformed \<Rightarrow> Inr self
                 | Parsed (JObj last_entry) \<Rightarrow>
                     Inr (self\<lparr>last_hash := dict_get last_entry ''entry_hash''\<rparr>)
                 | Parsed _ \<Rightarrow>
                     Inl (PyExc ''AttributeError'' ''object has no attribute get''))))"

definition new_EvidenceLedger :: "string \<Rightarrow> ledger_file \<Rightarrow> pyexc + EvidenceLedger" where
  "new_EvidenceLedger p f = load_last_hash \<lparr>path = p, last_hash = JNull\<rparr> f"

definition compute_entry_hash :: "EvidenceLedger \<Rightarrow> (string \<times> json) list \<Rightarrow> string" where
  "compute_entry_hash self entry =
     (let entry_with_prev = AList.update ''previous_hash'' (last_hash self) entry;
          canonical = json_dumps True '','' '':'' (JObj entry_with_prev)
      in sha256_hexdigest canonical)"

definition ledger_lines :: "ledger_file \<Rightarrow> line list" where
  "ledger_lines f = (case file_lines f of None \<Rightarrow> [] | Some ls \<Rightarrow> ls)"

text \<open>
  The block \<^verbatim>\<open>with open(path, 'a') as f\<close> that writes one line for each value: the
  lines are added, or the block raises and the file holds what the failure left. On an
  exception the file of that moment comes with it.
\<close>

definition write_block :: "ledger_file \<Rightarrow> json list \<Rightarrow> (pyexc \<times> ledger_file) + ledger_file" where
  "write_block f vs =
     (case io_script f of
        Io_fails e left # script \<Rightarrow>
          Inl (e, f\<lparr>file_lines :=
                      (case left of None \<Rightarrow> file_lines f | Some ls \<Rightarrow> Some (ledger_lines f @ ls)),
                    io_script := script\<rparr>)
      | _ \<Rightarrow>
          Inr (f\<lparr>file_lines := Some (ledger_lines f @ map Parsed vs),
                 io_script := tl (io_script f)\<rparr>))"

text \<open>The next \<open>n\<close> blocks on the file succeed.\<close>

definition blocks_ok :: "nat \<Rightarrow> ledger_file \<Rightarrow> bool" where
  "blocks_ok n f = list_all (\<lambda>outcome. outcome = Io_ok) (take n (io_script f))"

text \<open>The part \<^verbatim>\<open>append\<close> and \<^verbatim>\<open>append_event\<close> share, once the entry is built.\<close>

definition append_entry :: "EvidenceLedger \<Rightarrow> ledger_file \<Rightarrow> (string \<times> json) list
    \<Rightarrow> (pyexc \<times> ledger_file) + (string \<times> EvidenceLedger \<times> ledger_file)" where
  "append_entry self f entry =
     (let entry_hash = compute_entry_hash self entry;
          entry = AList.update ''entry_hash'' (JStr entry_hash) entry
      in then_do (write_block f [JObj entry]) (\<lambda>f.
         Inr (entry_hash, self\<lparr>last_hash := JStr entry_hash\<rparr>, f)))"

definition append :: "string \<Rightarrow> EvidenceLedger \<Rightarrow> ledger_file \<Rightarrow> InvariantResult
    \<Rightarrow> (pyexc \<times> ledger_file) + (string \<times> EvidenceLedger \<times> ledger_file)" where
  "append now self f result =
     append_entry self f
       [(''type'', JStr ''INVARIANT_RESULT''),
        (''timestamp'', JStr now),
        (''previous_hash'', last_hash self),
        (''result'', result_to_dict result)]"

definition append_event :: "string \<Rightarrow> EvidenceLedger \<Rightarrow> ledger_file \<Rightarrow> string
    \<Rightarrow> (string \<times> json) list
    \<Rightarrow> (pyexc \<times> ledger_file) + (string \<times> EvidenceLedger \<times> ledger_file)" where
  "append_event now self f event_type payload =
     append_entry self f
       [(''type'', JStr event_type),
        (''timestamp'', JStr now),
        (''previous_hash'', last_hash self),
        (''payload'', JObj payload)]"

fun append_batch :: "string \<Rightarrow> EvidenceLedger \<Rightarrow> ledger_file \<Rightarrow> InvariantResult list
    \<Rightarrow> (pyexc \<times> ledger_file) + (string list \<times> EvidenceLedger \<times> ledger_file)" where
  "append_batch now self f [] = Inr ([], self, f)"
| "append_batch now self f (r # results) =
     then_do (append now self f r) (\<lambda>(h, self, f).
     then_do (append_batch now self f results) (\<lambda>(hs, self, f).
     Inr (h # hs, self, f)))"

text \<open>
  What a caller does with a ledger over time: calls of \<^verbatim>\<open>append\<close> and of
  \<^verbatim>\<open>append_event\<close>, each at its own reading of the clock, one after the other.
\<close>

datatype ledger_call =
    Append_result string InvariantResult
  | Append_event string string "(string \<times> json) list"

fun append_calls :: "EvidenceLedger \<Rightarrow> ledger_file \<Rightarrow> ledger_call list
    \<Rightarrow> (pyexc \<times> ledger_file) + (EvidenceLedger \<times> ledger_file)" where
  "append_calls self f [] = Inr (self, f)"
| "append_calls self f (Append_result now result # calls) =
     then_do (append now self f result) (\<lambda>(h, self, f). append_calls self f calls)"
| "append_calls self f (Append_event now event_type payload # calls) =
     then_do (append_event now self f event_type payload) (\<lambda>(h, self, f). append_calls self f calls)"

text \<open>
  The loop of \<^verbatim>\<open>verify_chain\<close> from line \<open>line_num\<close> on. It returns the verdict and
  what it passed to \<^verbatim>\<open>logging.error\<close>.
\<close>

fun verify_chain_loop :: "json \<Rightarrow> nat \<Rightarrow> line list \<Rightarrow> pyexc + (bool \<times> string list)" where
  "verify_chain_loop prev_hash line_num [] = Inr (True, [])"
| "verify_chain_loop prev_hash line_num (Malformed # rest) =
     Inr (False, [''Invalid JSON at line '' @ str_nat line_num])"
| "verify_chain_loop prev_hash line_num (Parsed (JObj entry) # rest) =
     (if \<not> py_eq (dict_get entry ''previous_hash'') prev_hash
        then Inr (False, [''Chain broken at line '' @ str_nat line_num])
      else verify_chain_loop (dict_get entry ''entry_hash'') (Suc line_num) rest)"
| "verify_chain_loop prev_hash line_num (Parsed _ # rest) =
     Inl (PyExc ''AttributeError'' ''object has no attribute get'')"

definition verify_chain :: "EvidenceLedger \<Rightarrow> ledger_file \<Rightarrow> pyexc + (bool \<times> string list)" where
  "verify_chain self f =
     (case file_lines f of
        None \<Rightarrow> Inr (True, [])
      | Some lines \<Rightarrow> verify_chain_loop JNull 1 lines)"

subsection \<open>Chains of entries\<close>

text \<open>
  Entry \<open>i\<close> of a list of entries is linked when its \<^verbatim>\<open>previous_hash\<close> is the
  \<^verbatim>\<open>entry_hash\<close> of the entry before it, or \<open>prev\<close> for the first one.
\<close>

definition linked :: "json \<Rightarrow> (string \<times> json) list list \<Rightarrow> nat \<Rightarrow> bool" where
  "linked prev es i =
     (dict_get (es ! i) ''previous_hash'' =
        (if i = 0 then prev else dict_get (es ! (i - 1)) ''entry_hash''))"

text \<open>
  The same link as \<^verbatim>\<open>verify_chain\<close> tests it, with Python's equality.
\<close>

definition py_linked :: "json \<Rightarrow> (string \<times> json) list list \<Rightarrow> nat \<Rightarrow> bool" where
  "py_linked prev es i =
     py_eq (dict_get (es ! i) ''previous_hash'')
       (if i = 0 then prev else dict_get (es ! (i - 1)) ''entry_hash'')"

section \<open>The H.U.G protocol\<close>

subsection \<open>Strings\<close>




subsection \<open>\<^verbatim>\<open>HUGProtocol\<close> of \<^verbatim>\<open>governance_daemon.py\<close>\<close>

record HUGResult =
  step :: string
  passed :: bool
  step_evidence :: "(string \<times> json) list"
  step_timestamp :: string


definition run_audit_U :: "string \<Rightarrow> InvariantResult list \<Rightarrow> HUGResult" where
  "run_audit_U now invariant_results =
     (let all_passed = list_all (\<lambda>r. status r = PASS) invariant_results;
          failures = map result_to_dict (filter is_failure invariant_results)
      in \<lparr>step = ''U'', passed = all_passed,
          step_evidence =
            [(''total_invariants'', JInt (int (length invariant_results))),
             (''passed'', JInt (int (length (filter (\<lambda>r. status r = PASS) invariant_results)))),
             (''failed'', JInt (int (length failures))),
             (''failures'', JArr (take 5 failures))],
          step_timestamp = now\<rparr>)"





subsection \<open>\<^verbatim>\<open>GovernanceDaemon\<close> and \<^verbatim>\<open>LoudFailureHandler\<close>\<close>

text \<open>
  The fields of the configuration that the methods below read (\<^verbatim>\<open>ledger_path\<close> is
  \<open>config_ledger_path\<close> here), and \<^verbatim>\<open>for_testing\<close>, which sets the paths and leaves
  the other fields at their defaults.
\<close>

record GovernanceDaemonConfig =
  config_ledger_path :: string
  max_failures_before_halt :: int
  halt_on_critical :: bool
  alerting_enabled :: bool
  alert_webhook_url :: "string option"

definition for_testing :: GovernanceDaemonConfig where
  "for_testing =
     \<lparr>config_ledger_path = ''/tmp/sovereign/governance_ledger.jsonl'',
      max_failures_before_halt = 3, halt_on_critical = True, alerting_enabled = True,
      alert_webhook_url = None\<rparr>"

text \<open>
  The daemon with the objects it owns: its configuration, its registry and its ledger
  (\<^verbatim>\<open>config\<close>, \<^verbatim>\<open>registry\<close> and \<^verbatim>\<open>ledger\<close>, with the prefix \<open>daemon_\<close> here) and
  the two counters of its failure handler. Logging, the signal handlers, the PID file and
  the watchdog are left out; the file of the ledger is passed along with the daemon.
\<close>

record GovernanceDaemon =
  daemon_config :: GovernanceDaemonConfig
  running :: bool
  daemon_registry :: InvariantRegistry
  daemon_ledger :: EvidenceLedger
  failure_count :: nat
  critical_failure_count :: nat
  validation_count :: nat
  last_validation :: "string option"
  consecutive_failures :: nat

text \<open>
  The constructor. \<^verbatim>\<open>create_default_registry()\<close> builds the registry; it is an
  argument here.
\<close>

definition new_GovernanceDaemon :: "GovernanceDaemonConfig \<Rightarrow> InvariantRegistry \<Rightarrow> ledger_file
    \<Rightarrow> (pyexc \<times> ledger_file) + GovernanceDaemon" where
  "new_GovernanceDaemon config registry f =
     (case new_EvidenceLedger (config_ledger_path config) f of
        Inl e \<Rightarrow> Inl (e, f)
      | Inr ledger \<Rightarrow>
          Inr \<lparr>daemon_config = config, running = False, daemon_registry = registry,
               daemon_ledger = ledger, failure_count = 0, critical_failure_count = 0,
               validation_count = 0, last_validation = None, consecutive_failures = 0\<rparr>)"

text \<open>\<^verbatim>\<open>LoudFailureHandler.handle_failure\<close>; the alert is a log line only.\<close>

definition handle_failure :: "string \<Rightarrow> InvariantResult \<Rightarrow> GovernanceDaemon \<times> ledger_file
    \<Rightarrow> (pyexc \<times> ledger_file) + (GovernanceDaemon \<times> ledger_file)" where
  "handle_failure now result = (\<lambda>(self, f).
     let self = self\<lparr>failure_count := failure_count self + 1\<rparr>;
         self = (if result_severity result = Inv_CRITICAL
                 then self\<lparr>critical_failure_count := critical_failure_count self + 1\<rparr>
                 else self)
     in then_do (append now (daemon_ledger self) f result) (\<lambda>(h, ledger, f).
        Inr (self\<lparr>daemon_ledger := ledger\<rparr>, f)))"

definition get_stats :: "GovernanceDaemon \<Rightarrow> (string \<times> json) list" where
  "get_stats self =
     [(''total_failures'', JInt (int (failure_count self))),
      (''critical_failures'', JInt (int (critical_failure_count self)))]"

definition stop :: "string \<Rightarrow> GovernanceDaemon \<Rightarrow> ledger_file
    \<Rightarrow> (pyexc \<times> ledger_file) + (GovernanceDaemon \<times> ledger_file)" where
  "stop now self f =
     (if \<not> running self then Inr (self, f)
      else
        (let self = self\<lparr>running := False\<rparr>
         in then_do (append_event now (daemon_ledger self) f ''DAEMON_STOP''
                       [(''validation_count'', JInt (int (validation_count self))),
                        (''failure_stats'', JObj (get_stats self))]) (\<lambda>(h, ledger, f).
            Inr (self\<lparr>daemon_ledger := ledger\<rparr>, f))))"

text \<open>
  \<^verbatim>\<open>_emergency_halt\<close> never returns: it ends in \<^verbatim>\<open>sys.exit(1)\<close>, that is in
  \<^verbatim>\<open>SystemExit\<close>, unless the halt event or the stop raises before.
\<close>

definition emergency_halt :: "string \<Rightarrow> GovernanceDaemon \<Rightarrow> ledger_file \<Rightarrow> InvariantResult list
    \<Rightarrow> pyexc \<times> ledger_file" where
  "emergency_halt now self f failures =
     (case append_event now (daemon_ledger self) f ''EMERGENCY_HALT''
             [(''reason'', JStr ''Critical invariant failure''),
              (''failures'', JArr (map result_to_dict failures)),
              (''validation_count'', JInt (int (validation_count self)))] of
        Inl raised \<Rightarrow> raised
      | Inr (h, ledger, f) \<Rightarrow>
          (case stop now (self\<lparr>daemon_ledger := ledger\<rparr>) f of
             Inl raised \<Rightarrow> raised
           | Inr (self, f) \<Rightarrow> (PyExc ''SystemExit'' ''1'', f)))"

text \<open>\<^verbatim>\<open>validate_once\<close>; the context \<^verbatim>\<open>_build_validation_context\<close> builds is an argument.\<close>

definition validate_once :: "string \<Rightarrow> GovernanceDaemon \<Rightarrow> ledger_file \<Rightarrow> (string \<times> json) list
    \<Rightarrow> (pyexc \<times> ledger_file) + (InvariantResult list \<times> GovernanceDaemon \<times> ledger_file)" where
  "validate_once now self f ctx =
     (let self = self\<lparr>validation_count := validation_count self + 1, last_validation := Some now\<rparr>;
          (results, registry) = validate_all now (daemon_registry self) ctx;
          self = self\<lparr>daemon_registry := registry\<rparr>;
          failures = get_failures results;
          record_batch = (\<lambda>(self, f).
            then_do (append_batch now (daemon_ledger self) f results) (\<lambda>(hs, ledger, f).
            Inr (results, self\<lparr>daemon_ledger := ledger\<rparr>, f)))
      in if failures \<noteq> [] then
           (let self = self\<lparr>consecutive_failures := consecutive_failures self + 1\<rparr>
            in then_do (for_each (handle_failure now) failures (self, f)) (\<lambda>(self, f).
                 if has_critical_failure results \<and> halt_on_critical (daemon_config self)
                   then Inl (emergency_halt now self f failures)
                 else if max_failures_before_halt (daemon_config self)
                           \<le> int (consecutive_failures self)
                   then Inl (emergency_halt now self f failures)
                 else record_batch (self, f)))
         else record_batch (self\<lparr>consecutive_failures := 0\<rparr>, f))"

subsection \<open>The standalone module \<^verbatim>\<open>hug_protocol.py\<close>\<close>





text \<open>
  What \<^verbatim>\<open>run_invariant_tests\<close> meets when it runs. Either the daemon module imports:
  then a test daemon is built on the default registry and validates its context, both
  given here with the reading of the daemon's clock. Or the import fails and
  \<^verbatim>\<open>pytest\<close> runs to a return code and an output, is not to be had
  (\<^verbatim>\<open>FileNotFoundError\<close>, \<^verbatim>\<open>TimeoutExpired\<close>), or raises another exception.
\<close>

datatype test_env =
    Daemon_imported InvariantRegistry "(string \<times> json) list" string
  | Pytest_ran int string
  | Pytest_unavailable
  | Pytest_raises pyexc

text \<open>
  \<^verbatim>\<open>run_invariant_tests\<close>. \<open>tf\<close> is the ledger file of the test daemon; only
  \<^verbatim>\<open>ImportError\<close> is caught around the daemon, so what \<^verbatim>\<open>validate_once\<close> raises,
  \<^verbatim>\<open>SystemExit\<close> included, leaves the function.
\<close>

definition run_invariant_tests :: "test_env \<Rightarrow> ledger_file
    \<Rightarrow> (pyexc \<times> ledger_file) + ((bool \<times> (string \<times> json) list) \<times> ledger_file)" where
  "run_invariant_tests env tf =
     (case env of
        Daemon_imported registry ctx clock \<Rightarrow>
          then_do (new_GovernanceDaemon for_testing registry tf) (\<lambda>daemon.
          then_do (validate_once clock daemon tf ctx) (\<lambda>(results, daemon, tf).
            let failures = get_failures results
            in Inr ((length failures = 0,
                     [(''total'', JInt (int (length results))),
                      (''passed'', JInt (int (length results) - int (length failures))),
                      (''failed'', JInt (int (length failures))),
                      (''failures'', JArr (map result_to_dict (take 5 failures)))]), tf)))
      | Pytest_ran returncode stdout \<Rightarrow>
          Inr ((returncode = 0,
                [(''method'', JStr ''pytest''),
                 (''returncode'', JInt returncode),
                 (''stdout'', JStr (drop (length stdout - 1000) stdout))]), tf)
      | Pytest_unavailable \<Rightarrow>
          Inr ((True,
                [(''method'', JStr ''skipped''),
                 (''reason'', JStr ''No test framework available'')]), tf)
      | Pytest_raises e \<Rightarrow> Inl (e, tf))"



section \<open>Example inputs\<close>

text \<open>Validators and invariants on which the theorems below are run.\<close>

definition passing_validator :: "(string \<times> json) list \<Rightarrow> pyexc + InvariantResult" where
  "passing_validator ctx =
     Inr (new_InvariantResult ''INV-A'' ''Always passes'' PASS Inv_LOW ''holds''
            ''2026-01-01T00:00:00+00:00'' [] [])"

definition failing_validator :: "(string \<times> json) list \<Rightarrow> pyexc + InvariantResult" where
  "failing_validator ctx =
     Inr (new_InvariantResult ''INV-B'' ''Always fails'' FAIL Inv_HIGH ''violated''
            ''2026-01-01T00:00:00+00:00'' [] [])"

definition raising_validator :: "(string \<times> json) list \<Rightarrow> pyexc + InvariantResult" where
  "raising_validator ctx = Inl (PyExc ''ValueError'' ''boom'')"


definition example_invariant :: "string \<Rightarrow> string \<Rightarrow> InvSeverity
    \<Rightarrow> ((string \<times> json) list \<Rightarrow> pyexc + InvariantResult) \<Rightarrow> Invariant" where
  "example_invariant i d sev v =
     \<lparr>inv_id = i, inv_name = i, description = d, inv_severity = sev, validator = v,
      enabled = True, agi_safety = False\<rparr>"



text \<open>
  A ledger with one entry, as \<^verbatim>\<open>append_event\<close> writes it on a new file, and the same
  file after one character of the payload has changed (the last letter of the mode, by
  one bit) while every other character, the stored hash included, stays.
\<close>

definition start_entry :: "string \<Rightarrow> (string \<times> json) list" where
  "start_entry mode =
     [(''type'', JStr ''DAEMON_START''),
      (''timestamp'', JStr ''2026-01-01T00:00:00+00:00''),
      (''previous_hash'', JNull),
      (''payload'', JObj [(''mode'', JStr mode)])]"

definition start_hash :: string where
  "start_hash = sha256_hexdigest (json_dumps True '','' '':'' (JObj (start_entry ''test'')))"

definition written_ledger :: ledger_file where
  "written_ledger =
     \<lparr>file_lines = Some [Parsed (JObj (start_entry ''test'' @ [(''entry_hash'', JStr start_hash)]))],
      io_script = []\<rparr>"

definition tampered_ledger :: ledger_file where
  "tampered_ledger =
     \<lparr>file_lines = Some [Parsed (JObj (start_entry ''tesu'' @ [(''entry_hash'', JStr start_hash)]))],
      io_script = []\<rparr>"

text \<open>The same entry again, storing as its hash two characters that are no digest.\<close>

definition forged_ledger :: ledger_file where
  "forged_ledger =
     \<lparr>file_lines = Some [Parsed (JObj (start_entry ''tesu'' @ [(''entry_hash'', JStr ''00'')]))],
      io_script = []\<rparr>"

definition fresh_file :: ledger_file where
  "fresh_file = \<lparr>file_lines = None, io_script = []\<rparr>"



text \<open>A disabled invariant, and the batches of one result used with the H.U.G steps.\<close>

definition disabled_invariant :: Invariant where
  "disabled_invariant =
     (example_invariant ''INV-A'' ''passes'' Inv_LOW passing_validator)\<lparr>enabled := False\<rparr>"

definition skipped_batch :: "InvariantResult list" where
  "skipped_batch = [validate ''2026-01-01T00:00:05+00:00'' disabled_invariant []]"


text \<open>The registries of one invariant that a test daemon is built on below.\<close>

definition disabled_registry :: InvariantRegistry where
  "disabled_registry = register new_InvariantRegistry disabled_invariant"

definition passing_registry :: InvariantRegistry where
  "passing_registry =
     register new_InvariantRegistry
       (example_invariant ''INV-A'' ''passes'' Inv_LOW passing_validator)"

definition critical_invariant :: Invariant where
  "critical_invariant = example_invariant ''INV-C'' ''raises'' Inv_MEDIUM raising_validator"

definition critical_registry :: InvariantRegistry where
  "critical_registry = register new_InvariantRegistry critical_invariant"

definition failing_registry :: InvariantRegistry where
  "failing_registry =
     register new_InvariantRegistry
       (example_invariant ''INV-B'' ''fails'' Inv_HIGH failing_validator)"

section \<open>Properties of the halt matrix\<close>

lemma build_matrix_rows:
  "build_matrix \<lparr>matrix = [], sealed = False, seal_hash = None\<rparr> =
   Inr \<lparr>matrix = built_rows, sealed = False, seal_hash = None\<rparr>"
  by code_simp

lemma new_HaltMatrix_ok: "new_HaltMatrix = Inr HALT_MATRIX"
  by (simp add: HALT_MATRIX_def new_HaltMatrix_def build_matrix_rows then_do_def)

lemma matrix_HALT_MATRIX: "matrix HALT_MATRIX = built_rows"
  by (simp add: HALT_MATRIX_def new_HaltMatrix_def build_matrix_rows then_do_def seal_def)

lemma sealed_HALT_MATRIX: "sealed HALT_MATRIX"
  by (simp add: HALT_MATRIX_def new_HaltMatrix_def build_matrix_rows then_do_def seal_def)

lemma built_rows_keys:
  "map fst built_rows = List.product [INFO, WARN, FAULT, CRITICAL] OpClass_members"
  by (simp add: built_rows_def OpClass_members_def)

lemma built_rows_complete: "(sev, op) \<in> fst ` set built_rows"
proof -
  have "(sev, op) \<in> set (List.product [INFO, WARN, FAULT, CRITICAL] OpClass_members)"
    by (cases sev; cases op; simp add: OpClass_members_def)
  then show ?thesis
    by (simp only: built_rows_keys [symmetric] set_map)
qed

lemma built_rows_keyed:
  "list_all (\<lambda>(k, e). severity e = fst k \<and> op_class e = snd k) built_rows"
  by (simp add: built_rows_def)

lemma built_rows_lookup:
  assumes "map_of built_rows (sev, op) = Some e"
  shows "severity e = sev \<and> op_class e = op"
proof -
  from assms have "((sev, op), e) \<in> set built_rows"
    by (rule map_of_SomeD)
  with built_rows_keyed show ?thesis
    by (auto simp: list_all_iff)
qed

lemma decide_defined: "\<exists>e. decide self sev op = Inr e"
proof (cases "(sev, op) \<in> fst ` set (matrix self)")
  case True
  then obtain e where "map_of (matrix self) (sev, op) = Some e"
    by (metis domD dom_map_of_conv_image_fst)
  with True show ?thesis
    by (simp add: decide_def dict_index_def)
next
  case False
  then show ?thesis
    by (simp add: decide_def)
qed

lemma decide_HALT_MATRIX: "decide HALT_MATRIX sev op = dict_index built_rows (sev, op)"
  by (simp add: decide_def matrix_HALT_MATRIX built_rows_complete)

lemma decide_critical_config_deploy:
  "decide HALT_MATRIX CRITICAL CONFIG_DEPLOY =
   Inr \<lparr>severity = CRITICAL, op_class = CONFIG_DEPLOY, behavior = HALT, requires_quorum = True,
        requires_challenge_clear = True, audit_level = ''maximum''\<rparr>"
  by (simp add: decide_HALT_MATRIX dict_index_def built_rows_def)

lemma decide_critical_authority_revoke:
  "decide HALT_MATRIX CRITICAL AUTHORITY_REVOKE =
   Inr \<lparr>severity = CRITICAL, op_class = AUTHORITY_REVOKE, behavior = WARN_ALLOW,
        requires_quorum = True, requires_challenge_clear = False, audit_level = ''maximum''\<rparr>"
  by (simp add: decide_HALT_MATRIX dict_index_def built_rows_def)

text \<open>
  C3. On the sealed matrix \<^verbatim>\<open>decide\<close> finds every pair of the two enumerations: it
  returns the entry stored for the pair and never raises. On any matrix it returns an
  entry; for a pair the matrix does not hold, that entry is DENY with quorum and
  challenge clearance required and the maximal audit level.
\<close>

theorem decide_total_fail_secure:
  "new_HaltMatrix = Inr HALT_MATRIX \<and>
   (\<exists>e. map_of (matrix HALT_MATRIX) (sev, op) = Some e \<and> decide HALT_MATRIX sev op = Inr e \<and>
        severity e = sev \<and> op_class e = op) \<and>
   (\<exists>e. decide self sev op = Inr e) \<and>
   ((sev, op) \<notin> fst ` set (matrix self) \<longrightarrow>
      decide self sev op =
        Inr \<lparr>severity = sev, op_class = op, behavior = DENY, requires_quorum = True,
             requires_challenge_clear = True, audit_level = ''maximum''\<rparr>)"
proof (intro conjI)
  show "new_HaltMatrix = Inr HALT_MATRIX"
    by (rule new_HaltMatrix_ok)
next
  obtain e where e: "map_of built_rows (sev, op) = Some e"
    using built_rows_complete [of sev op] by (metis domD dom_map_of_conv_image_fst)
  then have "decide HALT_MATRIX sev op = Inr e"
    by (simp add: decide_HALT_MATRIX dict_index_def)
  with e built_rows_lookup [OF e]
  show "\<exists>e. map_of (matrix HALT_MATRIX) (sev, op) = Some e \<and> decide HALT_MATRIX sev op = Inr e \<and>
        severity e = sev \<and> op_class e = op"
    by (simp add: matrix_HALT_MATRIX)
next
  show "\<exists>e. decide self sev op = Inr e"
    by (rule decide_defined)
next
  show "(sev, op) \<notin> fst ` set (matrix self) \<longrightarrow>
      decide self sev op =
        Inr \<lparr>severity = sev, op_class = op, behavior = DENY, requires_quorum = True,
             requires_challenge_clear = True, audit_level = ''maximum''\<rparr>"
    by (simp add: decide_def)
qed

theorem decide_total_fail_secure_witness:
  "(CRITICAL, CONFIG_DEPLOY)
     \<notin> fst ` set (matrix (HALT_MATRIX\<lparr>matrix :=
          AList.delete (CRITICAL, CONFIG_DEPLOY) (matrix HALT_MATRIX)\<rparr>)) \<and>
   decide (HALT_MATRIX\<lparr>matrix := AList.delete (CRITICAL, CONFIG_DEPLOY) (matrix HALT_MATRIX)\<rparr>)
     CRITICAL CONFIG_DEPLOY =
   Inr \<lparr>severity = CRITICAL, op_class = CONFIG_DEPLOY, behavior = DENY, requires_quorum = True,
        requires_challenge_clear = True, audit_level = ''maximum''\<rparr>"
proof -
  have absent: "(CRITICAL, CONFIG_DEPLOY)
     \<notin> fst ` set (matrix (HALT_MATRIX\<lparr>matrix :=
          AList.delete (CRITICAL, CONFIG_DEPLOY) (matrix HALT_MATRIX)\<rparr>))"
    by (simp add: delete_notin_dom)
  with decide_total_fail_secure
    [where sev = CRITICAL and op = CONFIG_DEPLOY
       and self = "HALT_MATRIX\<lparr>matrix := AList.delete (CRITICAL, CONFIG_DEPLOY) (matrix HALT_MATRIX)\<rparr>"]
  show ?thesis
    by blast
qed

text \<open>
  C4. \<^verbatim>\<open>can_proceed\<close> always returns a verdict and a reason. The verdict is false when
  the decided behaviour is DENY or QUEUE; for HALT it is true exactly when the quorum,
  if required, is satisfied and the challenges, if their clearance is required, are
  clear; for ALLOW and WARN_ALLOW it is true. \<^verbatim>\<open>evaluate_operation\<close> on CONFIG_DEPLOY
  at CRITICAL with clear challenges answers BLOCKED, with a reason that names the
  quorum, without quorum, and PROCEED with it.
\<close>

theorem can_proceed_by_behavior:
  "(\<exists>ok reason. can_proceed self sev op quorum_satisfied challenges_clear = Inr (ok, reason)) \<and>
   (\<forall>entry ok reason.
      decide self sev op = Inr entry \<and>
      can_proceed self sev op quorum_satisfied challenges_clear = Inr (ok, reason) \<longrightarrow>
        (behavior entry = DENY \<longrightarrow> \<not> ok) \<and>
        (behavior entry = QUEUE \<longrightarrow> \<not> ok) \<and>
        (behavior entry = HALT \<longrightarrow>
           ok = ((requires_quorum entry \<longrightarrow> quorum_satisfied) \<and>
                 (requires_challenge_clear entry \<longrightarrow> challenges_clear))) \<and>
        (behavior entry = ALLOW \<or> behavior entry = WARN_ALLOW \<longrightarrow> ok)) \<and>
   (\<exists>d. evaluate_operation now CONFIG_DEPLOY CRITICAL False True = Inr (JObj d) \<and>
        dict_get d ''decision'' = JStr ''BLOCKED'' \<and>
        dict_get d ''reason'' = JStr ''Operation config_deploy halted: quorum required'') \<and>
   (\<exists>d. evaluate_operation now CONFIG_DEPLOY CRITICAL True True = Inr (JObj d) \<and>
        dict_get d ''decision'' = JStr ''PROCEED'')"
proof (intro conjI allI impI)
  obtain e where e: "decide self sev op = Inr e"
    using decide_defined by blast
  then show "\<exists>ok reason. can_proceed self sev op quorum_satisfied challenges_clear = Inr (ok, reason)"
    by (auto simp: can_proceed_def then_do_def)
next
  fix entry ok reason
  assume "decide self sev op = Inr entry \<and>
      can_proceed self sev op quorum_satisfied challenges_clear = Inr (ok, reason)"
  then have a: "then_do (Inr entry :: pyexc + HaltMatrixEntry) (\<lambda>entry.
       if behavior entry = DENY then
         Inr (False, ''Operation '' @ OpClass_value op @ '' denied at severity '' @ Severity_value sev)
       else if behavior entry = HALT then
         (if requires_quorum entry \<and> \<not> quorum_satisfied then
            Inr (False, ''Operation '' @ OpClass_value op @ '' halted: quorum required'')
          else if requires_challenge_clear entry \<and> \<not> challenges_clear then
            Inr (False, ''Operation '' @ OpClass_value op @ '' halted: challenges must be cleared'')
          else
            Inr (True, ''Operation '' @ OpClass_value op @ '' allowed after requirements satisfied''))
       else if behavior entry = QUEUE then
         Inr (False, ''Operation '' @ OpClass_value op @ '' queued pending remediation'')
       else
         Inr (True, ''Operation '' @ OpClass_value op @ '' allowed at severity '' @ Severity_value sev))
     = Inr (ok, reason)"
    by (auto simp: can_proceed_def)
  {
    assume "behavior entry = DENY"
    with a show "\<not> ok" by (simp add: then_do_def)
  next
    assume "behavior entry = QUEUE"
    with a show "\<not> ok" by (simp add: then_do_def)
  next
    assume "behavior entry = HALT"
    with a show "ok = ((requires_quorum entry \<longrightarrow> quorum_satisfied) \<and>
                 (requires_challenge_clear entry \<longrightarrow> challenges_clear))"
      by (auto simp: then_do_def split: if_splits)
  next
    assume "behavior entry = ALLOW \<or> behavior entry = WARN_ALLOW"
    with a show ok by (auto simp: then_do_def)
  }
next
  show "\<exists>d. evaluate_operation now CONFIG_DEPLOY CRITICAL False True = Inr (JObj d) \<and>
        dict_get d ''decision'' = JStr ''BLOCKED'' \<and>
        dict_get d ''reason'' = JStr ''Operation config_deploy halted: quorum required''"
    by (simp add: evaluate_operation_def can_proceed_def then_do_def
        decide_critical_config_deploy dict_get_def)
next
  show "\<exists>d. evaluate_operation now CONFIG_DEPLOY CRITICAL True True = Inr (JObj d) \<and>
        dict_get d ''decision'' = JStr ''PROCEED''"
    by (simp add: evaluate_operation_def can_proceed_def then_do_def
        decide_critical_config_deploy dict_get_def)
qed

theorem can_proceed_by_behavior_witness:
  "decide HALT_MATRIX CRITICAL CONFIG_DEPLOY =
     Inr \<lparr>severity = CRITICAL, op_class = CONFIG_DEPLOY, behavior = HALT, requires_quorum = True,
          requires_challenge_clear = True, audit_level = ''maximum''\<rparr> \<and>
   can_proceed HALT_MATRIX CRITICAL CONFIG_DEPLOY False True =
     Inr (False, ''Operation config_deploy halted: quorum required'') \<and>
   can_proceed HALT_MATRIX CRITICAL CONFIG_DEPLOY True True =
     Inr (True, ''Operation config_deploy allowed after requirements satisfied'')"
  using can_proceed_by_behavior
    [where self = HALT_MATRIX and sev = CRITICAL and op = CONFIG_DEPLOY
       and quorum_satisfied = False and challenges_clear = True and now = "''''"]
  by (simp add: can_proceed_def then_do_def decide_critical_config_deploy)

text \<open>
  C7, at the input where the code departs from it: at CRITICAL the entry of
  AUTHORITY_REVOKE requires the quorum, and \<^verbatim>\<open>can_proceed\<close> lets the operation
  through with no quorum and no cleared challenge, since it reads the requirement on
  the HALT path only.
\<close>

theorem critical_whitelist_ignores_quorum:
  "decide HALT_MATRIX CRITICAL AUTHORITY_REVOKE =
     Inr \<lparr>severity = CRITICAL, op_class = AUTHORITY_REVOKE, behavior = WARN_ALLOW,
          requires_quorum = True, requires_challenge_clear = False, audit_level = ''maximum''\<rparr> \<and>
   can_proceed HALT_MATRIX CRITICAL AUTHORITY_REVOKE False False =
     Inr (True, ''Operation authority_revoke allowed at severity critical'')"
  by (simp add: can_proceed_def then_do_def decide_critical_authority_revoke)

section \<open>Properties of the invariant registry\<close>

lemma result_fields_post_init [simp]:
  "invariant_id (post_init r) = invariant_id r"
  "name (post_init r) = name r"
  "status (post_init r) = status r"
  "result_severity (post_init r) = result_severity r"
  "reason (post_init r) = reason r"
  "timestamp (post_init r) = timestamp r"
  "evidence (post_init r) = evidence r"
  by (simp_all add: post_init_def)








lemma example_invariant_fields [simp]:
  "inv_id (example_invariant i d sev v) = i"
  "inv_name (example_invariant i d sev v) = i"
  "inv_severity (example_invariant i d sev v) = sev"
  "validator (example_invariant i d sev v) = v"
  "enabled (example_invariant i d sev v)"
  by (simp_all add: example_invariant_def)





text \<open>
  C8, as the code has it. \<^verbatim>\<open>register\<close> raises nothing: it stores the invariant under
  its id. An id that is registered already keeps its place and the number of
  registrations, and its invariant is replaced by the new one; an id that is not is
  added at the end. No other registration and no history changes.
\<close>

theorem register_last_write_wins:
  "map_of (invariants (register self invariant)) (inv_id invariant) = Some invariant \<and>
   (\<forall>k. k \<noteq> inv_id invariant \<longrightarrow>
      map_of (invariants (register self invariant)) k = map_of (invariants self) k) \<and>
   (inv_id invariant \<in> fst ` set (invariants self) \<longrightarrow>
      map fst (invariants (register self invariant)) = map fst (invariants self)) \<and>
   (inv_id invariant \<notin> fst ` set (invariants self) \<longrightarrow>
      map fst (invariants (register self invariant)) =
        map fst (invariants self) @ [inv_id invariant]) \<and>
   results_history (register self invariant) = results_history self"
  by (simp add: register_def update_conv' update_keys)

theorem register_last_write_wins_witness:
  "inv_id (example_invariant ''INV-A'' ''replacement'' Inv_HIGH failing_validator)
     \<in> fst ` set (invariants (register new_InvariantRegistry
          (example_invariant ''INV-A'' ''passes'' Inv_LOW passing_validator))) \<and>
   map_of (invariants (register (register new_InvariantRegistry
       (example_invariant ''INV-A'' ''passes'' Inv_LOW passing_validator))
       (example_invariant ''INV-A'' ''replacement'' Inv_HIGH failing_validator))) ''INV-A'' =
     Some (example_invariant ''INV-A'' ''replacement'' Inv_HIGH failing_validator) \<and>
   map fst (invariants (register (register new_InvariantRegistry
       (example_invariant ''INV-A'' ''passes'' Inv_LOW passing_validator))
       (example_invariant ''INV-A'' ''replacement'' Inv_HIGH failing_validator))) = [''INV-A'']"
  using register_last_write_wins
    [where self = "register new_InvariantRegistry
                     (example_invariant ''INV-A'' ''passes'' Inv_LOW passing_validator)"
       and invariant = "example_invariant ''INV-A'' ''replacement'' Inv_HIGH failing_validator"]
  by (simp add: register_def new_InvariantRegistry_def)

theorem register_duplicate_counterexample:
  "invariants (register (register new_InvariantRegistry
       (example_invariant ''INV-A'' ''passes'' Inv_LOW passing_validator))
       (example_invariant ''INV-A'' ''replacement'' Inv_HIGH failing_validator)) =
     [(''INV-A'', example_invariant ''INV-A'' ''replacement'' Inv_HIGH failing_validator)] \<and>
   example_invariant ''INV-A'' ''replacement'' Inv_HIGH failing_validator \<noteq>
     example_invariant ''INV-A'' ''passes'' Inv_LOW passing_validator"
  by (simp add: register_def new_InvariantRegistry_def) (simp add: example_invariant_def)

section \<open>Properties of the result hash\<close>

lemma length_sha256_round: "length s = 8 \<Longrightarrow> length (sha256_round s kw) = 8"
proof -
  assume "length s = 8"
  then obtain a b c d e f g h where "s = [a, b, c, d, e, f, g, h]"
    by (auto simp: length_Suc_conv eval_nat_numeral)
  then show ?thesis
    by (cases kw) (simp add: Let_def)
qed

lemma length_foldl_sha256_round: "length s = 8 \<Longrightarrow> length (foldl sha256_round s kws) = 8"
  by (induction kws arbitrary: s) (simp_all add: length_sha256_round)

lemma length_sha256_compress: "length hs = 8 \<Longrightarrow> length (sha256_compress hs block) = 8"
  by (simp add: sha256_compress_def length_foldl_sha256_round)

lemma length_foldl_sha256_compress:
  "length hs = 8 \<Longrightarrow> length (foldl sha256_compress hs blocks) = 8"
  by (induction blocks arbitrary: hs) (simp_all add: length_sha256_compress)

lemma length_sha256_digest: "length (sha256_digest bs) = 8"
  by (simp add: sha256_digest_def length_foldl_sha256_compress sha256_H0_def)

lemma length_hex_bytes: "length (concat (map hex_byte ns)) = 2 * length ns"
  by (induction ns) (simp_all add: hex_byte_def)

lemma length_be_bytes: "length (be_bytes k n) = k"
  by (simp add: be_bytes_def)

lemma length_hex_words:
  "length (concat (map (\<lambda>w. concat (map hex_byte (be_bytes 4 (unat w)))) ws)) = 8 * length ws"
  by (induction ws) (simp_all add: length_hex_bytes length_be_bytes)

lemma length_sha256_hexdigest: "length (sha256_hexdigest s) = 64"
  by (simp add: sha256_hexdigest_def length_hex_words length_sha256_digest)

text \<open>
  C10. A result constructed with the empty hash gets as hash the first 16 characters
  of the SHA-256 hexadecimal digest of the JSON text, keys sorted and separators
  compact, of its seven other fields. A result constructed with any other hash keeps
  it as given: nothing recomputes it or compares it with the content.
\<close>

theorem post_init_hash:
  "hash (new_InvariantResult i n st sev rsn ts ev []) =
     take 16 (sha256_hexdigest (json_dumps True '','' '':''
       (JObj [(''invariant_id'', JStr i), (''name'', JStr n),
              (''status'', JStr (InvariantStatus_value st)),
              (''severity'', JStr (InvSeverity_value sev)),
              (''reason'', JStr rsn), (''timestamp'', JStr ts), (''evidence'', JObj ev)]))) \<and>
   length (hash (new_InvariantResult i n st sev rsn ts ev [])) = 16 \<and>
   new_InvariantResult i n st sev rsn ts ev (c # cs) =
     \<lparr>invariant_id = i, name = n, status = st, result_severity = sev, reason = rsn,
      timestamp = ts, evidence = ev, hash = c # cs\<rparr>"
  by (simp add: new_InvariantResult_def post_init_def compute_hash_def length_sha256_hexdigest)

section \<open>Properties of the evidence ledger\<close>

lemma dict_get_update:
  "dict_get (AList.update k v d) k' = (if k' = k then v else dict_get d k')"
  by (simp add: dict_get_def update_conv')

lemma blocks_ok_Suc:
  "blocks_ok (Suc n) f =
     (case io_script f of [] \<Rightarrow> True | outcome # script \<Rightarrow> outcome = Io_ok \<and> blocks_ok n (f\<lparr>io_script := script\<rparr>))"
  by (simp add: blocks_ok_def split: list.splits)

lemma blocks_ok_tl:
  assumes "blocks_ok (Suc n) f"
  shows "blocks_ok n (f\<lparr>file_lines := ls, io_script := tl (io_script f)\<rparr>)"
  using assms by (cases "io_script f") (simp_all add: blocks_ok_def)

lemma write_block_ok:
  assumes "blocks_ok (Suc n) f"
  shows "write_block f vs =
     Inr (f\<lparr>file_lines := Some (ledger_lines f @ map Parsed vs), io_script := tl (io_script f)\<rparr>)"
  using assms
  by (cases "io_script f") (auto simp: write_block_def blocks_ok_def split: io_outcome.splits)

lemma write_block_fails:
  assumes "io_script f = Io_fails e left # script"
  shows "write_block f vs =
     Inl (e, f\<lparr>file_lines :=
                  (case left of None \<Rightarrow> file_lines f | Some ls \<Rightarrow> Some (ledger_lines f @ ls)),
                io_script := script\<rparr>)"
  using assms by (simp add: write_block_def)

lemma write_block_cases:
  assumes "write_block f vs = Inr f'"
  shows "f' = f\<lparr>file_lines := Some (ledger_lines f @ map Parsed vs), io_script := tl (io_script f)\<rparr>"
  using assms by (simp add: write_block_def split: list.splits io_outcome.splits)

lemma append_entry_written:
  assumes "blocks_ok (Suc n) f"
  shows "append_entry self f entry =
     Inr (compute_entry_hash self entry,
          self\<lparr>last_hash := JStr (compute_entry_hash self entry)\<rparr>,
          f\<lparr>file_lines := Some (ledger_lines f @
             [Parsed (JObj (AList.update ''entry_hash'' (JStr (compute_entry_hash self entry)) entry))]),
            io_script := tl (io_script f)\<rparr>)"
  by (simp add: append_entry_def write_block_ok [OF assms] then_do_def Let_def)

lemma append_entry_raises:
  assumes "io_script f = Io_fails e left # script"
  shows "append_entry self f entry =
     Inl (e, f\<lparr>file_lines :=
                  (case left of None \<Rightarrow> file_lines f | Some ls \<Rightarrow> Some (ledger_lines f @ ls)),
                io_script := script\<rparr>)"
  by (simp add: append_entry_def write_block_fails [OF assms] then_do_def Let_def)

lemma append_entry_cases:
  assumes "append_entry self f entry = Inr (h, self', f')"
  shows "h = compute_entry_hash self entry \<and>
     self' = self\<lparr>last_hash := JStr h\<rparr> \<and>
     f' = f\<lparr>file_lines := Some (ledger_lines f @
             [Parsed (JObj (AList.update ''entry_hash'' (JStr h) entry))]),
            io_script := tl (io_script f)\<rparr>"
proof -
  let ?e = "AList.update ''entry_hash'' (JStr (compute_entry_hash self entry)) entry"
  from assms obtain f1 where w: "write_block f [JObj ?e] = Inr f1"
    and r: "h = compute_entry_hash self entry" "self' = self\<lparr>last_hash := JStr h\<rparr>" "f' = f1"
    by (auto simp: append_entry_def then_do_def Let_def split: sum.splits)
  from write_block_cases [OF w] r show ?thesis
    by simp
qed

lemma linked_Cons_Suc:
  "linked prev (e # es) (Suc j) = linked (dict_get e ''entry_hash'') es j"
  by (cases j) (simp_all add: linked_def)

lemma append_step_chain:
  assumes step: "append_entry self f entry = Inr (h, self1, f1)"
    and prev: "dict_get entry ''previous_hash'' = last_hash self"
    and nohash: "''entry_hash'' \<noteq> ''previous_hash''"
    and rest: "ledger_lines f2 = ledger_lines f1 @ map (Parsed \<circ> JObj) es"
      "\<forall>i<length es. linked (last_hash self1) es i"
      "last_hash self2 = (if es = [] then last_hash self1 else dict_get (last es) ''entry_hash'')"
  shows "\<exists>es'. ledger_lines f2 = ledger_lines f @ map (Parsed \<circ> JObj) es' \<and>
      length es' = Suc (length es) \<and>
      (\<forall>i<length es'. linked (last_hash self) es' i) \<and>
      last_hash self2 = (if es' = [] then last_hash self else dict_get (last es') ''entry_hash'')"
proof -
  let ?e = "AList.update ''entry_hash'' (JStr h) entry"
  from append_entry_cases [OF step]
  have s1: "self1 = self\<lparr>last_hash := JStr h\<rparr>"
    and f1: "f1 = f\<lparr>file_lines := Some (ledger_lines f @ [Parsed (JObj ?e)]),
                     io_script := tl (io_script f)\<rparr>"
    by simp_all
  have eh: "dict_get ?e ''entry_hash'' = last_hash self1"
    by (simp add: dict_get_update s1)
  have ph: "dict_get ?e ''previous_hash'' = last_hash self"
    using prev by (simp add: dict_get_update)
  have lines: "ledger_lines f2 = ledger_lines f @ map (Parsed \<circ> JObj) (?e # es)"
    using rest(1) by (simp add: f1 ledger_lines_def)
  have links: "linked (last_hash self) (?e # es) i" if "i < length (?e # es)" for i
  proof (cases i)
    case 0
    then show ?thesis by (simp add: linked_def ph)
  next
    case (Suc j)
    with that rest(2) show ?thesis
      by (simp add: linked_Cons_Suc eh)
  qed
  have lh: "last_hash self2 = dict_get (last (?e # es)) ''entry_hash''"
    using rest(3) eh by simp
  show ?thesis
    using lines links lh by (intro exI [of _ "?e # es"]) simp
qed

lemma append_calls_chain:
  assumes "append_calls self f calls = Inr (self', f')"
  shows "\<exists>es. ledger_lines f' = ledger_lines f @ map (Parsed \<circ> JObj) es \<and>
      length es = length calls \<and>
      (\<forall>i<length es. linked (last_hash self) es i) \<and>
      last_hash self' = (if es = [] then last_hash self else dict_get (last es) ''entry_hash'')"
  using assms
proof (induction calls arbitrary: self f)
  case Nil
  then show ?case by simp
next
  case (Cons call calls)
  show ?case
  proof (cases call)
    case (Append_result now result)
    let ?entry = "[(''type'', JStr ''INVARIANT_RESULT''), (''timestamp'', JStr now),
        (''previous_hash'', last_hash self), (''result'', result_to_dict result)]"
    from Cons.prems Append_result obtain h self1 f1
      where step: "append_entry self f ?entry = Inr (h, self1, f1)"
        and rest: "append_calls self1 f1 calls = Inr (self', f')"
      by (auto simp: then_do_def append_def split: sum.splits)
    from Cons.IH [OF rest] obtain es
      where es: "ledger_lines f' = ledger_lines f1 @ map (Parsed \<circ> JObj) es"
        "length es = length calls" "\<forall>i<length es. linked (last_hash self1) es i"
        "last_hash self' = (if es = [] then last_hash self1 else dict_get (last es) ''entry_hash'')"
      by blast
    have ph: "dict_get ?entry ''previous_hash'' = last_hash self"
      by (simp add: dict_get_def)
    have "''entry_hash'' \<noteq> ''previous_hash''"
      by simp
    from append_step_chain [OF step ph this es(1,3,4)] obtain es'
      where "ledger_lines f' = ledger_lines f @ map (Parsed \<circ> JObj) es'"
        "length es' = Suc (length es)" "\<forall>i<length es'. linked (last_hash self) es' i"
        "last_hash self' = (if es' = [] then last_hash self else dict_get (last es') ''entry_hash'')"
      by blast
    then show ?thesis
      by (intro exI [of _ es']) (simp add: es(2))
  next
    case (Append_event now event_type payload)
    let ?entry = "[(''type'', JStr event_type), (''timestamp'', JStr now),
        (''previous_hash'', last_hash self), (''payload'', JObj payload)]"
    from Cons.prems Append_event obtain h self1 f1
      where step: "append_entry self f ?entry = Inr (h, self1, f1)"
        and rest: "append_calls self1 f1 calls = Inr (self', f')"
      by (auto simp: then_do_def append_event_def split: sum.splits)
    from Cons.IH [OF rest] obtain es
      where es: "ledger_lines f' = ledger_lines f1 @ map (Parsed \<circ> JObj) es"
        "length es = length calls" "\<forall>i<length es. linked (last_hash self1) es i"
        "last_hash self' = (if es = [] then last_hash self1 else dict_get (last es) ''entry_hash'')"
      by blast
    have ph: "dict_get ?entry ''previous_hash'' = last_hash self"
      by (simp add: dict_get_def)
    have "''entry_hash'' \<noteq> ''previous_hash''"
      by simp
    from append_step_chain [OF step ph this es(1,3,4)] obtain es'
      where "ledger_lines f' = ledger_lines f @ map (Parsed \<circ> JObj) es'"
        "length es' = Suc (length es)" "\<forall>i<length es'. linked (last_hash self) es' i"
        "last_hash self' = (if es' = [] then last_hash self else dict_get (last es') ''entry_hash'')"
      by blast
    then show ?thesis
      by (intro exI [of _ es']) (simp add: es(2))
  qed
qed

lemma append_calls_succeed:
  assumes "blocks_ok (length calls) f"
  shows "\<exists>self' f'. append_calls self f calls = Inr (self', f')"
  using assms
proof (induction calls arbitrary: self f)
  case Nil
  then show ?case by simp
next
  case (Cons call calls)
  from Cons.prems have ok: "blocks_ok (Suc (length calls)) f"
    by simp
  show ?case
    using Cons.IH [OF blocks_ok_tl [OF ok]]
    by (cases call) (simp_all add: append_def append_event_def append_entry_written [OF ok] then_do_def)
qed

lemma append_batch_succeed:
  assumes "blocks_ok (length results) f"
  shows "\<exists>hs self' f'. append_batch now self f results = Inr (hs, self', f') \<and>
     length (ledger_lines f') = length (ledger_lines f) + length results"
  using assms
proof (induction results arbitrary: self f)
  case Nil
  then show ?case by simp
next
  case (Cons r results)
  from Cons.prems have ok: "blocks_ok (Suc (length results)) f"
    by simp
  let ?entry = "[(''type'', JStr ''INVARIANT_RESULT''), (''timestamp'', JStr now),
      (''previous_hash'', last_hash self), (''result'', result_to_dict r)]"
  let ?h = "compute_entry_hash self ?entry"
  let ?f = "f\<lparr>file_lines := Some (ledger_lines f @
             [Parsed (JObj (AList.update ''entry_hash'' (JStr ?h) ?entry))]),
            io_script := tl (io_script f)\<rparr>"
  have "blocks_ok (length results) ?f"
    by (rule blocks_ok_tl [OF ok])
  from Cons.IH [OF this, of "self\<lparr>last_hash := JStr ?h\<rparr>"]
  obtain hs self' f' where
    "append_batch now (self\<lparr>last_hash := JStr ?h\<rparr>) ?f results = Inr (hs, self', f')"
    "length (ledger_lines f') = length (ledger_lines ?f) + length results"
    by blast
  then show ?case
    by (simp add: append_def append_entry_written [OF ok] then_do_def ledger_lines_def)
qed

lemma py_linked_Cons_Suc:
  "py_linked prev (e # es) (Suc j) = py_linked (dict_get e ''entry_hash'') es j"
  by (cases j) (simp_all add: py_linked_def)

lemma verify_chain_loop_prefix:
  assumes "\<forall>i<length es. py_linked prev es i"
  shows "verify_chain_loop prev n (map (Parsed \<circ> JObj) es @ rest) =
     verify_chain_loop (if es = [] then prev else dict_get (last es) ''entry_hash'')
       (n + length es) rest"
  using assms
proof (induction es arbitrary: prev n)
  case Nil
  then show ?case by simp
next
  case (Cons e es)
  from Cons.prems have first: "py_eq (dict_get e ''previous_hash'') prev"
    by (auto simp: py_linked_def)
  have "py_linked (dict_get e ''entry_hash'') es i" if "i < length es" for i
    using Cons.prems [rule_format, of "Suc i"] that by (simp add: py_linked_Cons_Suc)
  then have "\<forall>i<length es. py_linked (dict_get e ''entry_hash'') es i"
    by blast
  from Cons.IH [OF this, of "Suc n"] first show ?case
    by simp
qed

lemma py_linked_take:
  assumes "i < k" and "k \<le> length es"
  shows "py_linked prev (take k es) i = py_linked prev es i"
  using assms by (simp add: py_linked_def)

lemma verify_chain_loop_break:
  assumes k: "k < length es"
    and broken: "\<not> py_linked prev es k"
    and before: "\<forall>i<k. py_linked prev es i"
  shows "verify_chain_loop prev n (map (Parsed \<circ> JObj) es) =
     Inr (False, [''Chain broken at line '' @ str_nat (n + k)])"
proof -
  have split: "es = take k es @ es ! k # drop (Suc k) es"
    using k by (rule id_take_nth_drop)
  have pre: "\<forall>i<length (take k es). py_linked prev (take k es) i"
    using k before by (simp add: py_linked_take)
  let ?prev = "if take k es = [] then prev else dict_get (last (take k es)) ''entry_hash''"
  have prev: "?prev = (if k = 0 then prev else dict_get (es ! (k - 1)) ''entry_hash'')"
    using k by (cases k) (auto simp: last_conv_nth)
  have nb: "\<not> py_eq (dict_get (es ! k) ''previous_hash'') ?prev"
    using broken unfolding py_linked_def prev .
  have stop: "verify_chain_loop p (n + length (take k es)) (Parsed (JObj (es ! k)) # r) =
      Inr (False, [''Chain broken at line '' @ str_nat (n + k)])"
    if "\<not> py_eq (dict_get (es ! k) ''previous_hash'') p" for p r
    using that k by simp
  have "verify_chain_loop prev n (map (Parsed \<circ> JObj) es) =
     verify_chain_loop prev n
       (map (Parsed \<circ> JObj) (take k es) @ Parsed (JObj (es ! k)) # map (Parsed \<circ> JObj) (drop (Suc k) es))"
    by (subst split) simp
  also have "\<dots> = verify_chain_loop ?prev (n + length (take k es))
       (Parsed (JObj (es ! k)) # map (Parsed \<circ> JObj) (drop (Suc k) es))"
    by (rule verify_chain_loop_prefix [OF pre])
  also have "\<dots> = Inr (False, [''Chain broken at line '' @ str_nat (n + k)])"
    by (rule stop [OF nb])
  finally show ?thesis .
qed

lemma verify_chain_loop_update:
  assumes "i < length lines" and "lines ! i = Parsed (JObj entry)"
    and "dict_get entry' ''previous_hash'' = dict_get entry ''previous_hash''"
    and "dict_get entry' ''entry_hash'' = dict_get entry ''entry_hash''"
  shows "verify_chain_loop prev n (lines[i := Parsed (JObj entry')]) =
     verify_chain_loop prev n lines"
  using assms(1,2)
proof (induction lines arbitrary: i prev n)
  case Nil
  then show ?case by simp
next
  case (Cons l ls)
  show ?case
  proof (cases i)
    case 0
    with Cons.prems assms(3,4) show ?thesis by simp
  next
    case (Suc j)
    with Cons.prems have j: "j < length ls" "ls ! j = Parsed (JObj entry)"
      by simp_all
    show ?thesis
    proof (cases l)
      case Malformed
      with Suc show ?thesis by simp
    next
      case (Parsed v)
      with Suc Cons.IH [OF j] show ?thesis
        by (cases v) simp_all
    qed
  qed
qed

text \<open>
  What \<^verbatim>\<open>verify_chain\<close> checks. It recomputes no hash: it reads of every
  entry the stored \<^verbatim>\<open>previous_hash\<close> and \<^verbatim>\<open>entry_hash\<close> and nothing else. Replacing
  an entry by one with the same two fields, whatever its payload, leaves the verdict
  and the log as they were. On a file of entries the verdict is valid when every entry
  is linked to the one before it (the first one to \<^verbatim>\<open>None\<close>); otherwise it is invalid
  and the first entry that is not linked is logged as the break, by its line number.
\<close>

lemma verify_chain_checks_links_only:
  "(i < length lines \<and> lines ! i = Parsed (JObj entry) \<and>
    dict_get entry' ''previous_hash'' = dict_get entry ''previous_hash'' \<and>
    dict_get entry' ''entry_hash'' = dict_get entry ''entry_hash'' \<longrightarrow>
      verify_chain self \<lparr>file_lines = Some (lines[i := Parsed (JObj entry')]), io_script = sc\<rparr> =
      verify_chain self \<lparr>file_lines = Some lines, io_script = sc\<rparr>) \<and>
   ((\<forall>j<length es. py_linked JNull es j) \<longrightarrow>
      verify_chain self \<lparr>file_lines = Some (map (Parsed \<circ> JObj) es), io_script = sc\<rparr> =
      Inr (True, [])) \<and>
   (k < length bs \<and> \<not> py_linked JNull bs k \<and> (\<forall>j<k. py_linked JNull bs j) \<longrightarrow>
      verify_chain self \<lparr>file_lines = Some (map (Parsed \<circ> JObj) bs), io_script = sc\<rparr> =
      Inr (False, [''Chain broken at line '' @ str_nat (Suc k)]))"
proof (intro conjI impI)
  assume "i < length lines \<and> lines ! i = Parsed (JObj entry) \<and>
    dict_get entry' ''previous_hash'' = dict_get entry ''previous_hash'' \<and>
    dict_get entry' ''entry_hash'' = dict_get entry ''entry_hash''"
  then show "verify_chain self \<lparr>file_lines = Some (lines[i := Parsed (JObj entry')]), io_script = sc\<rparr> =
      verify_chain self \<lparr>file_lines = Some lines, io_script = sc\<rparr>"
    by (simp add: verify_chain_def verify_chain_loop_update)
next
  assume "\<forall>j<length es. py_linked JNull es j"
  from verify_chain_loop_prefix [OF this, of 1 "[]"]
  show "verify_chain self \<lparr>file_lines = Some (map (Parsed \<circ> JObj) es), io_script = sc\<rparr> =
      Inr (True, [])"
    by (simp add: verify_chain_def)
next
  assume "k < length bs \<and> \<not> py_linked JNull bs k \<and> (\<forall>j<k. py_linked JNull bs j)"
  then have "verify_chain_loop JNull 1 (map (Parsed \<circ> JObj) bs) =
     Inr (False, [''Chain broken at line '' @ str_nat (1 + k)])"
    by (intro verify_chain_loop_break) simp_all
  then show "verify_chain self \<lparr>file_lines = Some (map (Parsed \<circ> JObj) bs), io_script = sc\<rparr> =
      Inr (False, [''Chain broken at line '' @ str_nat (Suc k)])"
    by (simp add: verify_chain_def)
qed

lemma append_event_start:
  "append_event ''2026-01-01T00:00:00+00:00'' \<lparr>path = ''ledger.jsonl'', last_hash = JNull\<rparr>
     fresh_file ''DAEMON_START'' [(''mode'', JStr ''test'')] =
   Inr (start_hash, \<lparr>path = ''ledger.jsonl'', last_hash = JStr start_hash\<rparr>, written_ledger)"
  by (simp add: append_event_def append_entry_def compute_entry_hash_def write_block_def then_do_def
      fresh_file_def written_ledger_def start_hash_def start_entry_def ledger_lines_def Let_def)

lemma verify_chain_checks_links_only_example:
  "[Parsed (JObj (start_entry ''test'' @ [(''entry_hash'', JStr start_hash)]))] ! 0 =
     Parsed (JObj (start_entry ''test'' @ [(''entry_hash'', JStr start_hash)])) \<and>
   dict_get (start_entry ''tesu'' @ [(''entry_hash'', JStr start_hash)]) ''entry_hash'' =
     dict_get (start_entry ''test'' @ [(''entry_hash'', JStr start_hash)]) ''entry_hash'' \<and>
   py_linked JNull [start_entry ''test'' @ [(''entry_hash'', JStr start_hash)]] 0 \<and>
   \<not> py_linked JNull
       [start_entry ''test'' @ [(''entry_hash'', JStr start_hash)], start_entry ''test''] 1 \<and>
   verify_chain \<lparr>path = ''ledger.jsonl'', last_hash = JStr start_hash\<rparr> tampered_ledger =
     verify_chain \<lparr>path = ''ledger.jsonl'', last_hash = JStr start_hash\<rparr> written_ledger \<and>
   verify_chain \<lparr>path = ''ledger.jsonl'', last_hash = JStr start_hash\<rparr> written_ledger =
     Inr (True, []) \<and>
   verify_chain \<lparr>path = ''ledger.jsonl'', last_hash = JStr start_hash\<rparr>
       \<lparr>file_lines = Some (map (Parsed \<circ> JObj)
          [start_entry ''test'' @ [(''entry_hash'', JStr start_hash)], start_entry ''test'']),
        io_script = []\<rparr> =
     Inr (False, [''Chain broken at line 2''])"
proof -
  let ?e = "start_entry ''test'' @ [(''entry_hash'', JStr start_hash)]"
  let ?t = "start_entry ''tesu'' @ [(''entry_hash'', JStr start_hash)]"
  have h1: "(0::nat) < length [Parsed (JObj ?e)] \<and> [Parsed (JObj ?e)] ! 0 = Parsed (JObj ?e) \<and>
      dict_get ?t ''previous_hash'' = dict_get ?e ''previous_hash'' \<and>
      dict_get ?t ''entry_hash'' = dict_get ?e ''entry_hash''"
    by (simp add: start_entry_def dict_get_def)
  have h2: "\<forall>j<length [?e]. py_linked JNull [?e] j"
    by (simp add: start_entry_def dict_get_def py_linked_def)
  have h3: "1 < length [?e, start_entry ''test''] \<and>
      \<not> py_linked JNull [?e, start_entry ''test''] 1 \<and>
      (\<forall>j<1. py_linked JNull [?e, start_entry ''test''] j)"
    by (simp add: start_entry_def dict_get_def py_linked_def)
  have two: "str_nat (Suc 1) = ''2''"
    by (simp add: str_nat.simps hex_digit_def)
  from verify_chain_checks_links_only
    [where i = 0 and lines = "[Parsed (JObj ?e)]" and entry = ?e and entry' = ?t
       and es = "[?e]" and bs = "[?e, start_entry ''test'']" and k = 1 and sc = "[]"
       and self = "\<lparr>path = ''ledger.jsonl'', last_hash = JStr start_hash\<rparr>"]
    h1 h2 h3
  have "verify_chain \<lparr>path = ''ledger.jsonl'', last_hash = JStr start_hash\<rparr>
          \<lparr>file_lines = Some ([Parsed (JObj ?e)][0 := Parsed (JObj ?t)]), io_script = []\<rparr> =
        verify_chain \<lparr>path = ''ledger.jsonl'', last_hash = JStr start_hash\<rparr>
          \<lparr>file_lines = Some [Parsed (JObj ?e)], io_script = []\<rparr>"
    and "verify_chain \<lparr>path = ''ledger.jsonl'', last_hash = JStr start_hash\<rparr>
          \<lparr>file_lines = Some (map (Parsed \<circ> JObj) [?e]), io_script = []\<rparr> = Inr (True, [])"
    and "verify_chain \<lparr>path = ''ledger.jsonl'', last_hash = JStr start_hash\<rparr>
          \<lparr>file_lines = Some (map (Parsed \<circ> JObj) [?e, start_entry ''test'']), io_script = []\<rparr> =
        Inr (False, [''Chain broken at line '' @ str_nat (Suc 1)])"
    by blast+
  with h1 h2 h3 two show ?thesis
    by (simp add: tampered_ledger_def written_ledger_def)
qed

text \<open>
  C1, at an input where the code departs from it. \<^verbatim>\<open>append_event\<close> writes one
  entry on a new ledger; then one character of the payload of that entry is changed on
  the file (the last letter of the mode, by one bit) and nothing else, the stored
  \<^verbatim>\<open>entry_hash\<close> staying as it was. \<^verbatim>\<open>verify_chain\<close>, whose purpose is to verify
  the integrity of the hash chain, returns \<^verbatim>\<open>True\<close> on the changed file and logs no
  break. It does so too when the entry stores as \<^verbatim>\<open>entry_hash\<close> a string that is the
  hash of no entry at all.
\<close>

theorem verify_chain_misses_payload_flip:
  "append_event ''2026-01-01T00:00:00+00:00'' \<lparr>path = ''ledger.jsonl'', last_hash = JNull\<rparr>
     fresh_file ''DAEMON_START'' [(''mode'', JStr ''test'')] =
     Inr (start_hash, \<lparr>path = ''ledger.jsonl'', last_hash = JStr start_hash\<rparr>, written_ledger) \<and>
   file_lines written_ledger =
     Some [Parsed (JObj (start_entry ''test'' @ [(''entry_hash'', JStr start_hash)]))] \<and>
   file_lines tampered_ledger =
     Some [Parsed (JObj (start_entry ''tesu'' @ [(''entry_hash'', JStr start_hash)]))] \<and>
   start_entry ''tesu'' \<noteq> start_entry ''test'' \<and>
   verify_chain \<lparr>path = ''ledger.jsonl'', last_hash = JStr start_hash\<rparr> tampered_ledger =
     Inr (True, []) \<and>
   file_lines forged_ledger =
     Some [Parsed (JObj (start_entry ''tesu'' @ [(''entry_hash'', JStr ''00'')]))] \<and>
   compute_entry_hash \<lparr>path = ''ledger.jsonl'', last_hash = JNull\<rparr> (start_entry ''tesu'') \<noteq> ''00'' \<and>
   verify_chain \<lparr>path = ''ledger.jsonl'', last_hash = JStr ''00''\<rparr> forged_ledger =
     Inr (True, [])"
proof -
  have "length (compute_entry_hash \<lparr>path = ''ledger.jsonl'', last_hash = JNull\<rparr> (start_entry ''tesu'')) = 64"
    by (simp add: compute_entry_hash_def length_sha256_hexdigest)
  then have "compute_entry_hash \<lparr>path = ''ledger.jsonl'', last_hash = JNull\<rparr> (start_entry ''tesu'') \<noteq> ''00''"
    by auto
  then show ?thesis
    by (simp add: append_event_start)
       (simp add: start_entry_def dict_get_def tampered_ledger_def written_ledger_def
          forged_ledger_def verify_chain_def)
qed

text \<open>
  C9, as the code has it. At startup \<^verbatim>\<open>_last_hash\<close> is \<^verbatim>\<open>None\<close> when the file is
  missing or empty, and also when its last line is no JSON; when the last line is an
  entry it is that entry's \<^verbatim>\<open>entry_hash\<close>. Every entry appended afterwards stores as
  \<^verbatim>\<open>previous_hash\<close> the \<^verbatim>\<open>entry_hash\<close> of the entry appended before it, and the
  first one the value loaded at startup: \<^verbatim>\<open>None\<close> (JSON \<^verbatim>\<open>null\<close>) on a new ledger.
\<close>

theorem last_hash_seed_and_chain:
  "new_EvidenceLedger p \<lparr>file_lines = None, io_script = sc\<rparr> =
     Inr \<lparr>path = p, last_hash = JNull\<rparr> \<and>
   new_EvidenceLedger p \<lparr>file_lines = Some [], io_script = sc\<rparr> =
     Inr \<lparr>path = p, last_hash = JNull\<rparr> \<and>
   new_EvidenceLedger p \<lparr>file_lines = Some (ls @ [Malformed]), io_script = sc\<rparr> =
     Inr \<lparr>path = p, last_hash = JNull\<rparr> \<and>
   new_EvidenceLedger p \<lparr>file_lines = Some (ls @ [Parsed (JObj e)]), io_script = sc\<rparr> =
     Inr \<lparr>path = p, last_hash = dict_get e ''entry_hash''\<rparr> \<and>
   (new_EvidenceLedger p f = Inr self \<and> append_calls self f calls = Inr (self', f') \<longrightarrow>
      (\<exists>es. ledger_lines f' = ledger_lines f @ map (Parsed \<circ> JObj) es \<and>
            length es = length calls \<and>
            (\<forall>i<length es. linked (last_hash self) es i) \<and>
            last_hash self' =
              (if es = [] then last_hash self else dict_get (last es) ''entry_hash''))) \<and>
   (ledger_lines f = [] \<and> new_EvidenceLedger p f = Inr self \<and>
    append_calls self f calls = Inr (self', f') \<longrightarrow>
      (\<exists>es. ledger_lines f' = map (Parsed \<circ> JObj) es \<and> length es = length calls \<and>
            (\<forall>i<length es. linked JNull es i)))"
proof (intro conjI impI)
  assume a: "new_EvidenceLedger p f = Inr self \<and> append_calls self f calls = Inr (self', f')"
  then show "\<exists>es. ledger_lines f' = ledger_lines f @ map (Parsed \<circ> JObj) es \<and>
            length es = length calls \<and>
            (\<forall>i<length es. linked (last_hash self) es i) \<and>
            last_hash self' =
              (if es = [] then last_hash self else dict_get (last es) ''entry_hash'')"
    by (intro append_calls_chain) simp
next
  assume a: "ledger_lines f = [] \<and> new_EvidenceLedger p f = Inr self \<and>
    append_calls self f calls = Inr (self', f')"
  then have "last_hash self = JNull"
    by (auto simp: new_EvidenceLedger_def load_last_hash_def ledger_lines_def split: option.splits)
  moreover from a have "\<exists>es. ledger_lines f' = ledger_lines f @ map (Parsed \<circ> JObj) es \<and>
            length es = length calls \<and>
            (\<forall>i<length es. linked (last_hash self) es i) \<and>
            last_hash self' =
              (if es = [] then last_hash self else dict_get (last es) ''entry_hash'')"
    by (intro append_calls_chain) simp
  ultimately show "\<exists>es. ledger_lines f' = map (Parsed \<circ> JObj) es \<and> length es = length calls \<and>
            (\<forall>i<length es. linked JNull es i)"
    using a by auto
qed (simp_all add: new_EvidenceLedger_def load_last_hash_def)

theorem last_hash_seed_and_chain_witness:
  "ledger_lines fresh_file = [] \<and>
   new_EvidenceLedger ''ledger.jsonl'' fresh_file =
     Inr \<lparr>path = ''ledger.jsonl'', last_hash = JNull\<rparr> \<and>
   append_calls \<lparr>path = ''ledger.jsonl'', last_hash = JNull\<rparr> fresh_file
       [Append_event ''2026-01-01T00:00:00+00:00'' ''DAEMON_START'' [(''mode'', JStr ''test'')]] =
     Inr (\<lparr>path = ''ledger.jsonl'', last_hash = JStr start_hash\<rparr>, written_ledger) \<and>
   ledger_lines written_ledger =
     map (Parsed \<circ> JObj) [start_entry ''test'' @ [(''entry_hash'', JStr start_hash)]] \<and>
   linked JNull [start_entry ''test'' @ [(''entry_hash'', JStr start_hash)]] 0"
proof -
  have new: "new_EvidenceLedger ''ledger.jsonl'' fresh_file =
     Inr \<lparr>path = ''ledger.jsonl'', last_hash = JNull\<rparr>"
    by (simp add: new_EvidenceLedger_def load_last_hash_def fresh_file_def)
  have run: "append_calls \<lparr>path = ''ledger.jsonl'', last_hash = JNull\<rparr> fresh_file
       [Append_event ''2026-01-01T00:00:00+00:00'' ''DAEMON_START'' [(''mode'', JStr ''test'')]] =
     Inr (\<lparr>path = ''ledger.jsonl'', last_hash = JStr start_hash\<rparr>, written_ledger)"
    by (simp add: append_event_start then_do_def)
  have empty: "ledger_lines fresh_file = []"
    by (simp add: ledger_lines_def fresh_file_def)
  from last_hash_seed_and_chain
    [where p = "''ledger.jsonl''" and f = fresh_file
       and self = "\<lparr>path = ''ledger.jsonl'', last_hash = JNull\<rparr>"
       and calls = "[Append_event ''2026-01-01T00:00:00+00:00'' ''DAEMON_START'' [(''mode'', JStr ''test'')]]"
       and self' = "\<lparr>path = ''ledger.jsonl'', last_hash = JStr start_hash\<rparr>"
       and f' = written_ledger]
    new run empty
  show ?thesis
    by (simp add: ledger_lines_def written_ledger_def linked_def dict_get_def start_entry_def)
qed

theorem first_previous_hash_is_null_counterexample:
  "new_EvidenceLedger ''ledger.jsonl'' fresh_file =
     Inr \<lparr>path = ''ledger.jsonl'', last_hash = JNull\<rparr> \<and>
   new_EvidenceLedger ''ledger.jsonl'' \<lparr>file_lines = Some [], io_script = []\<rparr> =
     Inr \<lparr>path = ''ledger.jsonl'', last_hash = JNull\<rparr> \<and>
   append_event ''2026-01-01T00:00:00+00:00'' \<lparr>path = ''ledger.jsonl'', last_hash = JNull\<rparr>
     fresh_file ''DAEMON_START'' [(''mode'', JStr ''test'')] =
     Inr (start_hash, \<lparr>path = ''ledger.jsonl'', last_hash = JStr start_hash\<rparr>, written_ledger) \<and>
   file_lines written_ledger =
     Some [Parsed (JObj (start_entry ''test'' @ [(''entry_hash'', JStr start_hash)]))] \<and>
   dict_get (start_entry ''test'' @ [(''entry_hash'', JStr start_hash)]) ''previous_hash'' = JNull \<and>
   dict_get (start_entry ''test'' @ [(''entry_hash'', JStr start_hash)]) ''previous_hash'' \<noteq>
     JStr ''GENESIS''"
  by (simp add: append_event_start)
     (simp add: new_EvidenceLedger_def load_last_hash_def fresh_file_def written_ledger_def
        start_entry_def dict_get_def)

section \<open>Properties of the H.U.G protocol\<close>

lemma skipped_batch_status: "map status skipped_batch = [SKIP]"
  by (simp add: skipped_batch_def validate_def disabled_invariant_def example_invariant_def
      new_InvariantResult_def)


subsection \<open>The test daemon\<close>

lemma validate_all_single:
  "validate_all now (register new_InvariantRegistry iv) ctx =
     ([validate now iv ctx],
      (register new_InvariantRegistry iv)\<lparr>results_history := [validate now iv ctx]\<rparr>)"
  by (simp add: validate_all_def register_def new_InvariantRegistry_def Let_def)





lemma validate_once_passes:
  assumes va: "validate_all now (daemon_registry self) ctx = (results, registry)"
    and none: "get_failures results = []"
    and ok: "blocks_ok (length results) f"
  shows "\<exists>self' f'. validate_once now self f ctx = Inr (results, self', f') \<and>
     length (ledger_lines f') = length (ledger_lines f) + length results"
proof -
  let ?self = "self\<lparr>validation_count := validation_count self + 1, last_validation := Some now,
      daemon_registry := registry, consecutive_failures := 0\<rparr>"
  from append_batch_succeed [OF ok, of now "daemon_ledger ?self"]
  obtain hs ledger' f' where "append_batch now (daemon_ledger ?self) f results = Inr (hs, ledger', f')"
    "length (ledger_lines f') = length (ledger_lines f) + length results"
    by blast
  with va none show ?thesis
    by (simp add: validate_once_def Let_def then_do_def)
qed

lemma new_GovernanceDaemon_config:
  assumes "new_GovernanceDaemon config registry f = Inr daemon"
  shows "daemon_config daemon = config \<and> daemon_registry daemon = registry"
  using assms by (auto simp: new_GovernanceDaemon_def split: sum.splits)

lemma new_GovernanceDaemon_fresh:
  "\<exists>daemon. new_GovernanceDaemon config registry fresh_file = Inr daemon"
  by (simp add: new_GovernanceDaemon_def new_EvidenceLedger_def load_last_hash_def fresh_file_def)


lemma run_invariant_tests_passes:
  assumes va: "fst (validate_all clock registry ctx) = results"
    and none: "get_failures results = []"
  shows "\<exists>tf'. run_invariant_tests (Daemon_imported registry ctx clock) fresh_file =
       Inr ((True,
             [(''total'', JInt (int (length results))),
              (''passed'', JInt (int (length results))),
              (''failed'', JInt 0),
              (''failures'', JArr [])]), tf') \<and>
     length (ledger_lines tf') = length results"
proof -
  obtain daemon where d: "new_GovernanceDaemon for_testing registry fresh_file = Inr daemon"
    using new_GovernanceDaemon_fresh by blast
  from new_GovernanceDaemon_config [OF d] have reg: "daemon_registry daemon = registry"
    by simp
  obtain registry' where "validate_all clock (daemon_registry daemon) ctx = (results, registry')"
    using va reg by (cases "validate_all clock registry ctx") simp
  moreover have "blocks_ok (length results) fresh_file"
    by (simp add: blocks_ok_def fresh_file_def)
  ultimately obtain self' f'
    where "validate_once clock daemon fresh_file ctx = Inr (results, self', f')"
      "length (ledger_lines f') = length (ledger_lines fresh_file) + length results"
    using validate_once_passes [OF _ none] by blast
  with d none show ?thesis
    by (simp add: run_invariant_tests_def then_do_def ledger_lines_def fresh_file_def)
qed

lemma skipped_batch_validated:
  "fst (validate_all ''2026-01-01T00:00:05+00:00'' disabled_registry []) = skipped_batch"
  by (simp add: disabled_registry_def validate_all_single skipped_batch_def)

lemma skipped_batch_no_failures: "get_failures skipped_batch = []"
proof -
  obtain r where r: "skipped_batch = [r]" "status r = SKIP"
    using skipped_batch_status by auto
  show ?thesis
    unfolding r(1) using r(2) by (simp add: get_failures_def is_failure_def)
qed

text \<open>
  C5, at the input where the code departs from it: a batch whose only result is the
  SKIP of a disabled invariant. The result is no failure, the U step of
  \<^verbatim>\<open>HUGProtocol.run_audit\<close> counts no failure in its evidence and yet does not pass,
  while the U step of \<^verbatim>\<open>hug_protocol.py\<close> passes on the same batch, which its test
  daemon gets from a registry that holds the disabled invariant.
\<close>

theorem hug_U_fails_on_skip:
  "map status skipped_batch = [SKIP] \<and>
   map is_failure skipped_batch = [False] \<and>
   passed (run_audit_U ''2026-01-01T00:00:06+00:00'' skipped_batch) = False \<and>
   dict_get (step_evidence (run_audit_U ''2026-01-01T00:00:06+00:00'' skipped_batch)) ''failed'' =
     JInt 0 \<and>
   fst (validate_all ''2026-01-01T00:00:05+00:00'' disabled_registry []) = skipped_batch \<and>
   (\<exists>tf'. run_invariant_tests
             (Daemon_imported disabled_registry [] ''2026-01-01T00:00:05+00:00'') fresh_file =
           Inr ((True,
                 [(''total'', JInt 1), (''passed'', JInt 1), (''failed'', JInt 0),
                  (''failures'', JArr [])]), tf'))"
proof -
  obtain r where r: "skipped_batch = [r]" "status r = SKIP"
    using skipped_batch_status by auto
  have first: "map status skipped_batch = [SKIP] \<and>
     map is_failure skipped_batch = [False] \<and>
     passed (run_audit_U ''2026-01-01T00:00:06+00:00'' skipped_batch) = False \<and>
     dict_get (step_evidence (run_audit_U ''2026-01-01T00:00:06+00:00'' skipped_batch)) ''failed'' =
       JInt 0"
    unfolding r(1) using r(2)
    by (simp add: run_audit_U_def get_failures_def is_failure_def dict_get_def)
  from run_invariant_tests_passes [OF skipped_batch_validated skipped_batch_no_failures]
  have "\<exists>tf'. run_invariant_tests
             (Daemon_imported disabled_registry [] ''2026-01-01T00:00:05+00:00'') fresh_file =
           Inr ((True,
                 [(''total'', JInt 1), (''passed'', JInt 1), (''failed'', JInt 0),
                  (''failures'', JArr [])]), tf')"
    unfolding r(1) by auto
  with first skipped_batch_validated show ?thesis
    by blast
qed

subsection \<open>\<^verbatim>\<open>HUGProtocol.run_audit\<close>\<close>

lemma append_event_written:
  assumes "blocks_ok (Suc n) f"
  shows "append_event now ledger f t payload =
      Inr (compute_entry_hash ledger
             [(''type'', JStr t), (''timestamp'', JStr now),
              (''previous_hash'', last_hash ledger), (''payload'', JObj payload)],
           ledger\<lparr>last_hash := JStr (compute_entry_hash ledger
             [(''type'', JStr t), (''timestamp'', JStr now),
              (''previous_hash'', last_hash ledger), (''payload'', JObj payload)])\<rparr>,
           f\<lparr>file_lines := Some (ledger_lines f @
                [Parsed (JObj
                   [(''type'', JStr t), (''timestamp'', JStr now),
                    (''previous_hash'', last_hash ledger), (''payload'', JObj payload),
                    (''entry_hash'', JStr (compute_entry_hash ledger
                       [(''type'', JStr t), (''timestamp'', JStr now),
                        (''previous_hash'', last_hash ledger), (''payload'', JObj payload)]))])]),
             io_script := tl (io_script f)\<rparr>)"
  by (simp add: append_event_def append_entry_written [OF assms])


lemma append_event_raises:
  assumes "io_script f = Io_fails e left # script"
  shows "append_event now ledger f t payload =
     Inl (e, f\<lparr>file_lines :=
                  (case left of None \<Rightarrow> file_lines f | Some ls \<Rightarrow> Some (ledger_lines f @ ls)),
                io_script := script\<rparr>)"
  by (simp add: append_event_def append_entry_raises [OF assms])

lemma append_event_isl:
  "isl (append_event now ledger f t payload) = (\<not> blocks_ok 1 f)"
proof (cases "blocks_ok 1 f")
  case True
  then have "blocks_ok (Suc 0) f"
    by simp
  from append_event_written [OF this] True show ?thesis
    by simp
next
  case False
  then obtain e left script where "io_script f = Io_fails e left # script"
    by (cases "io_script f"; cases "hd (io_script f)") (auto simp: blocks_ok_def)
  from append_event_raises [OF this] False show ?thesis
    by simp
qed







subsection \<open>\<^verbatim>\<open>run_hug_audit\<close> of \<^verbatim>\<open>hug_protocol.py\<close>\<close>










text \<open>
  The three ways of the test daemon on a new ledger file. With a critical failure it
  appends the failure and the halt event and exits; with a failure that is not critical
  it appends the failure and the batch, and the U step fails; with no failure it appends
  the batch, and the U step passes.
\<close>

lemma critical_registry_exits:
  "\<exists>f'. run_invariant_tests (Daemon_imported critical_registry [] clock) fresh_file =
       Inl (PyExc ''SystemExit'' ''1'', f') \<and>
     length (ledger_lines f') = 2"
  by (simp add: run_invariant_tests_def new_GovernanceDaemon_def new_EvidenceLedger_def
      load_last_hash_def fresh_file_def for_testing_def validate_once_def critical_registry_def
      validate_all_single critical_invariant_def validate_def example_invariant_def
      raising_validator_def new_InvariantResult_def get_failures_def is_failure_def
      has_critical_failure_def handle_failure_def append_def append_entry_def write_block_def
      emergency_halt_def append_event_def stop_def then_do_def Let_def ledger_lines_def)

lemma failing_registry_fails:
  "\<exists>u_evidence f'. run_invariant_tests (Daemon_imported failing_registry [] clock) fresh_file =
       Inr ((False, u_evidence), f') \<and>
     dict_get u_evidence ''failed'' = JInt 1 \<and>
     length (ledger_lines f') = 2"
  by (simp add: run_invariant_tests_def new_GovernanceDaemon_def new_EvidenceLedger_def
      load_last_hash_def fresh_file_def for_testing_def validate_once_def failing_registry_def
      validate_all_single validate_def example_invariant_def
      failing_validator_def new_InvariantResult_def get_failures_def is_failure_def
      has_critical_failure_def handle_failure_def append_def append_entry_def write_block_def
      then_do_def Let_def ledger_lines_def dict_get_def)

lemma passing_registry_passes:
  "\<exists>f'. run_invariant_tests (Daemon_imported passing_registry [] clock) fresh_file =
       Inr ((True, [(''total'', JInt 1), (''passed'', JInt 1), (''failed'', JInt 0),
                    (''failures'', JArr [])]), f') \<and>
     length (ledger_lines f') = 1"
  by (simp add: run_invariant_tests_def new_GovernanceDaemon_def new_EvidenceLedger_def
      load_last_hash_def fresh_file_def for_testing_def validate_once_def passing_registry_def
      validate_all_single validate_def example_invariant_def
      passing_validator_def new_InvariantResult_def get_failures_def is_failure_def
      append_def append_entry_def write_block_def then_do_def Let_def ledger_lines_def)














end
